theory Spec2Isabelle
  imports Main
begin

section \<open>JavaScript values used by the front end\<close>

text \<open>
  The front end is JavaScript (React).  A JavaScript string is a sequence of UTF-16 code
  units; \<open>length\<close>, \<open>substring\<close> and \<open>split\<close> count and cut code units.  The model writes a
  string as a \<^typ>\<open>string\<close>, one \<^typ>\<open>char\<close> per code unit, and therefore covers the strings
  whose code units are below 256 (ISO Latin-1).  On these, \<open>String.prototype.toLowerCase\<close>
  works unit by unit: the letters A..Z and the Latin-1 capitals U+00C0..U+00DE except the
  multiplication sign U+00D7 move up by 32, every other unit stays.
\<close>

definition lowerChar :: "char \<Rightarrow> char" where
  "lowerChar c =
     (let n = of_char c :: nat
      in if (65 \<le> n \<and> n \<le> 90) \<or> (192 \<le> n \<and> n \<le> 222 \<and> n \<noteq> 215)
         then char_of (n + 32) else c)"

definition toLowerCase :: "string \<Rightarrow> string" where
  "toLowerCase s = map lowerChar s"

text \<open>\<open>s.startsWith(p)\<close> and \<open>s.includes(p)\<close>.\<close>

fun startsWith :: "string \<Rightarrow> string \<Rightarrow> bool" where
  "startsWith s [] = True"
| "startsWith [] (p # ps) = False"
| "startsWith (c # cs) (p # ps) = (c = p \<and> startsWith cs ps)"

fun includesStr :: "string \<Rightarrow> string \<Rightarrow> bool" where
  "includesStr [] p = (p = [])"
| "includesStr (c # cs) p = (startsWith (c # cs) p \<or> includesStr cs p)"

text \<open>
  \<open>s.split(sep)\<close> for a one-unit separator: the pieces between the separators, in order;
  the result always has at least one piece (\<open>"".split(".")\<close> is \<open>[""]\<close>).
\<close>

fun split :: "char \<Rightarrow> string \<Rightarrow> string list" where
  "split sep [] = [[]]"
| "split sep (c # cs) =
     (case split sep cs of
        [] \<Rightarrow> (if c = sep then [[], []] else [[c]])
      | p # ps \<Rightarrow> (if c = sep then [] # p # ps else (c # p) # ps))"

text \<open>\<open>xs.pop()\<close> as a value: the last element, \<open>undefined\<close> (here \<open>None\<close>) on an empty array.\<close>

fun pop :: "'a list \<Rightarrow> 'a option" where
  "pop [] = None"
| "pop [x] = Some x"
| "pop (x # y # ys) = pop (y # ys)"

text \<open>
  Truthiness of an optional string: \<open>undefined\<close>, \<open>null\<close> and \<open>""\<close> are falsy.  \<open>truthy x\<close>
  is the string when \<open>x\<close> is truthy, and \<open>orStr x d\<close> is \<open>x || d\<close>.
\<close>

fun truthy :: "string option \<Rightarrow> string option" where
  "truthy None = None"
| "truthy (Some s) = (if s = [] then None else Some s)"

definition orStr :: "string option \<Rightarrow> string \<Rightarrow> string" where
  "orStr x d = (case truthy x of None \<Rightarrow> d | Some s \<Rightarrow> s)"

text \<open>The decimal numeral of a number, as template literals and \<open>String(n)\<close> print it.\<close>

definition digitChar :: "nat \<Rightarrow> char" where
  "digitChar d = char_of (48 + d)"

fun showNat :: "nat \<Rightarrow> string" where
  "showNat n = (if n < 10 then [digitChar n] else showNat (n div 10) @ [digitChar (n mod 10)])"

declare showNat.simps [simp del]

section \<open>Tasks view (\<open>components/dashboard/TasksView.jsx\<close>)\<close>

subsection \<open>Board cards and tasks\<close>

text \<open>
  A card as the board proxy returns it.  Fields the code reads through \<open>||\<close> or a
  truthiness test may be absent and are options.
\<close>

record card =
  card_id :: string
  card_name :: string
  card_desc :: "string option"
  card_closed :: bool
  card_due :: "string option"
  card_dateLastActivity :: "string option"
  card_shortUrl :: string
  card_url :: string
  card_comments_count :: "nat option"
  card_checklists_count :: "nat option"
  card_list_name :: string
  card_list_id :: string
  card_dueComplete :: "bool option"
  card_labels :: "string list option"

record assignee =
  assignee_id :: string
  assignee_name :: string

record task =
  task_id :: string
  task_title :: string
  task_description :: string
  task_status :: string
  task_dueDate :: string
  task_assignee :: assignee
  task_meetingIds :: "string list"
  task_closed :: bool
  task_shortUrl :: string
  task_url :: string
  task_dateLastActivity :: string
  task_commentsCount :: nat
  task_checklistsCount :: nat
  task_listName :: string
  task_listId :: string
  task_dueComplete :: bool
  task_labels :: "string list"

text \<open>One display group per board list: \<open>{ id, name, cards }\<close>.\<close>

record card_group =
  group_id :: string
  group_name :: string
  group_cards :: "card list"

text \<open>
  The platform's \<open>Date\<close>, as far as the adapter uses it:
  \<^item> \<open>today i\<close> is \<open>new Date().toISOString().split('T')[0]\<close> as read while the callback
    handles the card at index \<open>i\<close> (the clock is read once per card);
  \<^item> \<open>isoDate s\<close> is \<open>new Date(s).toISOString().split('T')[0]\<close>, the calendar date (UTC) of
    the parsed string, and \<open>None\<close> when \<open>s\<close> does not parse: \<open>toISOString\<close> then throws a
    \<open>RangeError\<close>;
  \<^item> \<open>localeDate s\<close> is \<open>new Date(s).toLocaleDateString("en-US", ...)\<close>, and \<open>None\<close> if
    that call throws (engines print an unparseable string as \<open>Invalid Date\<close> instead).
\<close>

record date_env =
  today :: "nat \<Rightarrow> string"
  isoDate :: "string \<Rightarrow> string option"
  localeDate :: "string \<Rightarrow> string option"

text \<open>
  Lines 95 to 109: the last activity is formatted when the card has one; the \<open>catch\<close>
  falls back to the raw string.
\<close>

definition lastActivityOf :: "date_env \<Rightarrow> card \<Rightarrow> string" where
  "lastActivityOf env c =
     (case truthy (card_dateLastActivity c) of
        Some s \<Rightarrow>
          (case localeDate env s of
             Some d \<Rightarrow> d
           | None \<Rightarrow> s)
      | None \<Rightarrow> ''No activity'')"

text \<open>
  Lines 112 to 119: the due date starts as today's date; a truthy \<open>card.due\<close> replaces it
  unless the conversion throws, and the empty \<open>catch\<close> keeps today's date.
\<close>

definition dueDateOf :: "date_env \<Rightarrow> nat \<Rightarrow> card \<Rightarrow> string" where
  "dueDateOf env i c =
     (case truthy (card_due c) of
        Some s \<Rightarrow>
          (case isoDate env s of
             Some d \<Rightarrow> d
           | None \<Rightarrow> today env i)
      | None \<Rightarrow> today env i)"

definition cardToTask :: "date_env \<Rightarrow> nat \<Rightarrow> card \<Rightarrow> task" where
  "cardToTask env i c =
     \<lparr> task_id = card_id c,
       task_title = card_name c,
       task_description = orStr (card_desc c) '''',
       task_status = (if card_closed c then ''done'' else ''open''),
       task_dueDate = dueDateOf env i c,
       task_assignee = \<lparr> assignee_id = ''1'', assignee_name = ''You'' \<rparr>,
       task_meetingIds = [],
       task_closed = card_closed c,
       task_shortUrl = card_shortUrl c,
       task_url = card_url c,
       task_dateLastActivity = lastActivityOf env c,
       task_commentsCount = (case card_comments_count c of None \<Rightarrow> 0 | Some n \<Rightarrow> n),
       task_checklistsCount = (case card_checklists_count c of None \<Rightarrow> 0 | Some n \<Rightarrow> n),
       task_listName = card_list_name c,
       task_listId = card_list_id c,
       task_dueComplete = (case card_dueComplete c of None \<Rightarrow> False | Some b \<Rightarrow> b),
       task_labels = (case card_labels c of None \<Rightarrow> [] | Some ls \<Rightarrow> ls) \<rparr>"

text \<open>\<open>data.cards.map((card) => ...)\<close>, lines 93 to 141: the callback at every index, in order.\<close>

definition cardsToTasks :: "date_env \<Rightarrow> card list \<Rightarrow> task list" where
  "cardsToTasks env cards = map (\<lambda>(i, c). cardToTask env i c) (enumerate 0 cards)"

text \<open>
  Lines 79 to 90: the \<open>Map\<close> keyed by \<open>list_id\<close>.  A \<open>Map\<close> keeps its keys in insertion
  order, so the groups are an association list; a card joins the group of its list or
  opens a new one at the end, named after this first card's \<open>list_name\<close>.
\<close>

fun addToGroups :: "card \<Rightarrow> card_group list \<Rightarrow> card_group list" where
  "addToGroups c [] =
     [\<lparr> group_id = card_list_id c, group_name = card_list_name c, group_cards = [c] \<rparr>]"
| "addToGroups c (g # gs) =
     (if group_id g = card_list_id c
      then g\<lparr> group_cards := group_cards g @ [c] \<rparr> # gs
      else g # addToGroups c gs)"

definition groupByList :: "card list \<Rightarrow> card_group list" where
  "groupByList cards = foldl (\<lambda>gs c. addToGroups c gs) [] cards"

subsection \<open>Component state and the fetch\<close>

record tasks_view =
  tasks :: "task list"
  loading :: bool
  filter_state :: string
  lists :: "card_group list"

definition initialTasksView :: tasks_view where
  "initialTasksView = \<lparr> tasks = [], loading = False, filter_state = ''all'', lists = [] \<rparr>"

text \<open>
  What a \<open>fetch\<close> followed by reading the body can give.
  \<^item> \<open>Rejected m\<close>: the promise rejects (no connection); \<open>m\<close> is the error's message.
  \<^item> \<open>NotOk status statusText body\<close>: a response whose \<open>ok\<close> is false.  Its body is
    \<open>ErrorObject d\<close> when it parses as a JSON object, \<open>d\<close> being the \<open>detail\<close> field if there
    is one, and \<open>Unparsable m\<close> when parsing throws an error with message \<open>m\<close>.
  \<^item> \<open>BadBody m\<close>: \<open>ok\<close> is true, but reading the body as an object of the expected kind
    throws an error with message \<open>m\<close>.
  \<^item> \<open>OkBody v\<close>: \<open>ok\<close> is true and \<open>v\<close> is the parsed body.
  A response that is not ok and whose body parses to \<open>null\<close> is left out.
\<close>

datatype error_json = Unparsable string | ErrorObject "string option"

datatype 'a fetched = Rejected string | NotOk nat string error_json | BadBody string | OkBody 'a

text \<open>The settings body carries \<open>workspace_id\<close>; the cards body carries \<open>cards\<close>.\<close>

record settings_body =
  workspace_id :: "string option"

record cards_body =
  cards :: "card list option"

text \<open>
  The backend as \<open>fetchTasks\<close> sees it: the answer to \<open>GET /settings\<close> and, per board id,
  the answer to \<open>GET /composio/trello/cards?board_id=...\<close>.
\<close>

record backend =
  settingsResponse :: "settings_body fetched"
  cardsResponse :: "string \<Rightarrow> cards_body fetched"

text \<open>
  The body of the \<open>try\<close> block of \<open>fetchTasks\<close> after \<open>setLoading(true)\<close>: every early
  \<open>return\<close> and every exception leaves the state as it is; only a card array of positive
  length reaches \<open>setLists\<close> and \<open>setTasks\<close> (line 77).  Console output is not modelled.
\<close>

definition fetchTasksBody :: "date_env \<Rightarrow> backend \<Rightarrow> tasks_view \<Rightarrow> tasks_view" where
  "fetchTasksBody env be st =
     (case settingsResponse be of
        Rejected m \<Rightarrow> st
      | NotOk status statusText body \<Rightarrow> st
      | BadBody m \<Rightarrow> st
      | OkBody settings \<Rightarrow>
          (case truthy (workspace_id settings) of
             None \<Rightarrow> st
           | Some boardId \<Rightarrow>
               (case cardsResponse be boardId of
                  Rejected m \<Rightarrow> st
                | NotOk status statusText body \<Rightarrow> st
                | BadBody m \<Rightarrow> st
                | OkBody data \<Rightarrow>
                    (case cards data of
                       None \<Rightarrow> st
                     | Some cs \<Rightarrow>
                         if length cs > 0
                         then st\<lparr> lists := groupByList cs, tasks := cardsToTasks env cs \<rparr>
                         else st))))"

text \<open>\<open>fetchTasks\<close>: \<open>setLoading(true)\<close>, the body, and \<open>setLoading(false)\<close> in \<open>finally\<close>.\<close>

definition fetchTasks :: "date_env \<Rightarrow> backend \<Rightarrow> tasks_view \<Rightarrow> tasks_view" where
  "fetchTasks env be st = (fetchTasksBody env be (st\<lparr> loading := True \<rparr>))\<lparr> loading := False \<rparr>"

subsection \<open>Filter and toggle\<close>

text \<open>Lines 17 to 21: \<open>tasks.filter(...)\<close> builds a new array and leaves \<open>tasks\<close> alone.\<close>

definition filteredTasks :: "string \<Rightarrow> task list \<Rightarrow> task list" where
  "filteredTasks f ts =
     filter (\<lambda>t. if f = ''open'' then task_status t = ''open''
                 else if f = ''done'' then task_status t = ''done''
                 else True) ts"

definition setFilter :: "string \<Rightarrow> tasks_view \<Rightarrow> tasks_view" where
  "setFilter f st = st\<lparr> filter_state := f \<rparr>"

text \<open>What one render shows in the list: the filtered tasks of the current state.\<close>

definition shownTasks :: "tasks_view \<Rightarrow> task list" where
  "shownTasks st = filteredTasks (filter_state st) (tasks st)"

text \<open>
  Lines 158 to 171: \<open>find\<close> the task; without one, return; otherwise \<open>map\<close> flips the
  status of every task carrying the id and \<open>setTasks\<close> stores the new array.  No request
  is sent (the remote update is a TODO in the source).
\<close>

definition toggleStatus :: "task \<Rightarrow> task" where
  "toggleStatus t = t\<lparr> task_status := (if task_status t = ''done'' then ''open'' else ''done'') \<rparr>"

definition toggleTaskStatus :: "string \<Rightarrow> tasks_view \<Rightarrow> tasks_view" where
  "toggleTaskStatus i st =
     (case find (\<lambda>t. task_id t = i) (tasks st) of
        None \<Rightarrow> st
      | Some t \<Rightarrow>
          st\<lparr> tasks := map (\<lambda>t. if task_id t = i then toggleStatus t else t) (tasks st) \<rparr>)"

text \<open>The data model's invariant: a task's status is \<open>open\<close> or \<open>done\<close>.\<close>

definition statusOk :: "task \<Rightarrow> bool" where
  "statusOk t = (task_status t = ''open'' \<or> task_status t = ''done'')"

section \<open>Meetings (\<open>components/dashboard/MeetingDetail.jsx\<close>, \<open>MeetingsView\<close>)\<close>

subsection \<open>The meeting adapter\<close>

record raw_action_item =
  raw_text :: string
  raw_assignee :: string
  raw_assigned_by :: "string option"

text \<open>A meeting as the meeting store returns it (\<open>data\<close> in \<open>loadMeeting\<close>).\<close>

record raw_meeting =
  raw_id :: string
  raw_title :: string
  raw_date :: string
  raw_participants :: "string list"
  raw_summary :: string
  raw_transcript_text :: "string option"
  raw_action_items :: "raw_action_item list"

record participant =
  participant_id :: string
  participant_name :: string

record action_item =
  action_id :: string
  action_text :: string
  action_assignee :: string
  action_assigned_by :: "string option"

record meeting =
  meeting_id :: string
  meeting_title :: string
  meeting_date :: string
  meeting_participants :: "participant list"
  minutesSummary :: string
  transcript_text :: "string option"
  meeting_actionItems :: "action_item list"

text \<open>
  \<open>participants.map(name => ({ id: name.toLowerCase(), name }))\<close>, the same expression in
  \<open>loadMeeting\<close> (line 43) and in \<open>loadMeetings\<close> of the meetings list.
\<close>

definition toParticipants :: "string list \<Rightarrow> participant list" where
  "toParticipants names =
     map (\<lambda>name. \<lparr> participant_id = toLowerCase name, participant_name = name \<rparr>) names"

text \<open>\<open>action_items.map((item, idx) => ({ id: `action-${idx}`, ... }))\<close>.\<close>

definition toActionItems :: "raw_action_item list \<Rightarrow> action_item list" where
  "toActionItems items =
     map (\<lambda>(idx, item).
            \<lparr> action_id = ''action-'' @ showNat idx,
              action_text = raw_text item,
              action_assignee = raw_assignee item,
              action_assigned_by = raw_assigned_by item \<rparr>)
         (enumerate 0 items)"

definition transformMeeting :: "raw_meeting \<Rightarrow> meeting" where
  "transformMeeting d =
     \<lparr> meeting_id = raw_id d,
       meeting_title = raw_title d,
       meeting_date = raw_date d,
       meeting_participants = toParticipants (raw_participants d),
       minutesSummary = raw_summary d,
       transcript_text = raw_transcript_text d,
       meeting_actionItems = toActionItems (raw_action_items d) \<rparr>"

text \<open>
  The meetings list builds, per meeting, the same participants, the action items without
  \<open>assigned_by\<close>, and pseudo-turns from the lines of the raw transcript: the turn of line
  \<open>idx\<close> has time \<open>idx + 1\<close> and the speaker label \<open>Speaker\<close>.  A meeting without a
  transcript string makes \<open>split\<close> throw, which arrives in \<open>loadMeetings\<close> as \<open>BadBody\<close>.
\<close>

record turn =
  turn_time :: string
  turn_speaker :: string
  turn_text :: string

record listed_action =
  listed_action_id :: string
  listed_action_text :: string
  listed_action_assignee :: string

record listed_meeting =
  listed_id :: string
  listed_title :: string
  listed_date :: string
  listed_participants :: "participant list"
  listed_minutesSummary :: string
  listed_actionItems :: "listed_action list"
  listed_transcript :: "turn list"

definition toTurns :: "string \<Rightarrow> turn list" where
  "toTurns text =
     map (\<lambda>(idx, line).
            \<lparr> turn_time = showNat (idx + 1), turn_speaker = ''Speaker'', turn_text = line \<rparr>)
         (enumerate 0 (split (CHR 0x0A) text))"

definition listMeeting :: "raw_meeting \<Rightarrow> listed_meeting option" where
  "listMeeting m =
     (case raw_transcript_text m of
        None \<Rightarrow> None
      | Some text \<Rightarrow>
          Some \<lparr> listed_id = raw_id m,
                 listed_title = raw_title m,
                 listed_date = raw_date m,
                 listed_participants = toParticipants (raw_participants m),
                 listed_minutesSummary = raw_summary m,
                 listed_actionItems =
                   map (\<lambda>(idx, item).
                          \<lparr> listed_action_id = ''action-'' @ showNat idx,
                            listed_action_text = raw_text item,
                            listed_action_assignee = raw_assignee item \<rparr>)
                       (enumerate 0 (raw_action_items m)),
                 listed_transcript = toTurns text \<rparr>)"

subsection \<open>The detail view's state\<close>

record meeting_detail =
  shown_meeting :: "meeting option"
  detail_loading :: bool
  actionItems :: "action_item list"
  summaryExpanded :: bool
  transcriptExpanded :: bool

definition initialMeetingDetail :: meeting_detail where
  "initialMeetingDetail =
     \<lparr> shown_meeting = None, detail_loading = True, actionItems = [],
       summaryExpanded = False, transcriptExpanded = False \<rparr>"

text \<open>
  \<open>loadMeeting\<close>: a successful response stores the transformed meeting and its action
  items; a response that is not ok, a rejected fetch and a body that cannot be read all
  store \<open>null\<close> as the meeting; \<open>finally\<close> clears \<open>loading\<close>.
\<close>

definition loadMeeting :: "raw_meeting fetched \<Rightarrow> meeting_detail \<Rightarrow> meeting_detail" where
  "loadMeeting response st =
     (case response of
        OkBody d \<Rightarrow>
          st\<lparr> shown_meeting := Some (transformMeeting d),
              actionItems := meeting_actionItems (transformMeeting d),
              detail_loading := False \<rparr>
      | NotOk status statusText body \<Rightarrow> st\<lparr> shown_meeting := None, detail_loading := False \<rparr>
      | Rejected m \<Rightarrow> st\<lparr> shown_meeting := None, detail_loading := False \<rparr>
      | BadBody m \<Rightarrow> st\<lparr> shown_meeting := None, detail_loading := False \<rparr>)"

definition toggleSummaryExpanded :: "meeting_detail \<Rightarrow> meeting_detail" where
  "toggleSummaryExpanded st = st\<lparr> summaryExpanded := \<not> summaryExpanded st \<rparr>"

definition toggleTranscriptExpanded :: "meeting_detail \<Rightarrow> meeting_detail" where
  "toggleTranscriptExpanded st = st\<lparr> transcriptExpanded := \<not> transcriptExpanded st \<rparr>"

subsection \<open>What the detail view renders\<close>

definition SUMMARY_TRUNCATE_LENGTH :: nat where
  "SUMMARY_TRUNCATE_LENGTH = 500"

definition TRANSCRIPT_TRUNCATE_LENGTH :: nat where
  "TRANSCRIPT_TRUNCATE_LENGTH = 1000"

text \<open>Lines 186 to 197: the summary paragraph and its button (\<open>None\<close>: no button).\<close>

definition summaryText :: "bool \<Rightarrow> string \<Rightarrow> string" where
  "summaryText expanded s =
     (if expanded \<or> length s \<le> SUMMARY_TRUNCATE_LENGTH then s
      else take SUMMARY_TRUNCATE_LENGTH s @ ''...'')"

definition summaryControl :: "bool \<Rightarrow> string \<Rightarrow> string option" where
  "summaryControl expanded s =
     (if length s > SUMMARY_TRUNCATE_LENGTH
      then Some (if expanded then ''Read less'' else ''Read more'')
      else None)"

text \<open>
  Lines 231 to 243: the transcript block and its button.  \<open>substring(0, 1000)\<close> is the
  first 1000 code units; a missing or empty transcript is falsy and shows the placeholder.
\<close>

definition transcriptShown :: "bool \<Rightarrow> string option \<Rightarrow> string" where
  "transcriptShown expanded t =
     (case truthy t of
        None \<Rightarrow> orStr t ''Transcript not available''
      | Some s \<Rightarrow>
          if expanded \<or> length s \<le> TRANSCRIPT_TRUNCATE_LENGTH
          then orStr t ''Transcript not available''
          else take TRANSCRIPT_TRUNCATE_LENGTH s @ ''...'')"

definition transcriptControl :: "bool \<Rightarrow> string option \<Rightarrow> string option" where
  "transcriptControl expanded t =
     (case truthy t of
        None \<Rightarrow> None
      | Some s \<Rightarrow>
          if length s > TRANSCRIPT_TRUNCATE_LENGTH
          then Some (if expanded then ''Read less'' else ''Read more'')
          else None)"

record detail_view =
  view_title :: string
  view_summary :: string
  view_summaryControl :: "string option"
  view_participants :: "participant list"
  view_transcript :: string
  view_transcriptControl :: "string option"
  view_actionItems :: "action_item list"

datatype meeting_view = LoadingMeeting | MeetingNotFound | MeetingShown detail_view

definition renderMeetingDetail :: "meeting_detail \<Rightarrow> meeting_view" where
  "renderMeetingDetail st =
     (if detail_loading st then LoadingMeeting
      else case shown_meeting st of
        None \<Rightarrow> MeetingNotFound
      | Some m \<Rightarrow>
          MeetingShown
            \<lparr> view_title = meeting_title m,
              view_summary = summaryText (summaryExpanded st) (minutesSummary m),
              view_summaryControl = summaryControl (summaryExpanded st) (minutesSummary m),
              view_participants = meeting_participants m,
              view_transcript = transcriptShown (transcriptExpanded st) (transcript_text m),
              view_transcriptControl =
                transcriptControl (transcriptExpanded st) (transcript_text m),
              view_actionItems = actionItems st \<rparr>)"

subsection \<open>Converting an action item to a task\<close>

text \<open>
  The body of a successful answer of \<open>POST /meetings/{id}/convert-to-task\<close>: \<open>success\<close>
  (read for truthiness), \<open>message\<close> and \<open>error\<close>.
\<close>

record convert_result =
  result_success :: bool
  result_message :: "string option"
  result_error :: "string option"

text \<open>
  What the user is shown.  \<open>alert\<close> and \<open>confirm\<close> texts start with a check mark or a cross
  mark, which the constructor stands for; the argument is the text after the mark and the
  blank.  \<open>ConfirmReconnect m\<close> is the \<open>confirm\<close> dialog of lines 122 to 126: the cross mark,
  \<open>m\<close>, and the question whether to open Settings to reconnect the board.
\<close>

datatype notice = AlertSuccess string | AlertFailure string | ConfirmReconnect string

text \<open>
  What one run of \<open>convertActionToTask\<close> does: at most one \<open>setActionItems\<close> (\<open>None\<close>: the
  setter is not called), one dialog, and at most one navigation.
\<close>

record convert_effect =
  effect_setActionItems :: "action_item list option"
  effect_notice :: notice
  effect_navigate :: "string option"

text \<open>Line 109: the message of the error thrown for a response that is not ok.\<close>

definition httpErrorMessage :: "nat \<Rightarrow> string \<Rightarrow> error_json \<Rightarrow> string" where
  "httpErrorMessage status statusText body =
     orStr (case body of Unparsable m \<Rightarrow> Some statusText | ErrorObject d \<Rightarrow> d)
       (''HTTP '' @ showNat status @ '': '' @ statusText)"

text \<open>Line 121: the test for a permission error.\<close>

definition isPermissionError :: "string \<Rightarrow> bool" where
  "isPermissionError errorMsg =
     (includesStr (toLowerCase errorMsg) ''permission''
      \<or> includesStr (toLowerCase errorMsg) ''unauthorized'')"

text \<open>
  Lines 89 to 138.  \<open>captured\<close> is the \<open>actionItems\<close> array of the render that created the
  handler: the closure filters that array, not the state at the time the answer arrives.
  \<open>answer\<close> is what the user answers if the \<open>confirm\<close> dialog is shown.  Every thrown error
  ends in the \<open>catch\<close> block, which alerts with the error's message.
\<close>

definition convertActionToTask ::
  "convert_result fetched \<Rightarrow> bool \<Rightarrow> action_item list \<Rightarrow> action_item \<Rightarrow> convert_effect" where
  "convertActionToTask response answer captured actionItem =
     (case response of
        Rejected m \<Rightarrow>
          \<lparr> effect_setActionItems = None,
            effect_notice = AlertFailure (''Failed to convert action item to task: '' @ m),
            effect_navigate = None \<rparr>
      | NotOk status statusText body \<Rightarrow>
          \<lparr> effect_setActionItems = None,
            effect_notice =
              AlertFailure (''Failed to convert action item to task: ''
                            @ httpErrorMessage status statusText body),
            effect_navigate = None \<rparr>
      | BadBody m \<Rightarrow>
          \<lparr> effect_setActionItems = None,
            effect_notice = AlertFailure (''Failed to convert action item to task: '' @ m),
            effect_navigate = None \<rparr>
      | OkBody result \<Rightarrow>
          if result_success result
          then
            \<lparr> effect_setActionItems =
                Some (filter (\<lambda>ai. action_id ai \<noteq> action_id actionItem) captured),
              effect_notice =
                AlertSuccess
                  (orStr (result_message result) ''Action item converted to task successfully!''),
              effect_navigate = None \<rparr>
          else
            (let errorMsg = orStr (result_error result) ''Failed to convert action item to task''
             in if isPermissionError errorMsg
                then
                  \<lparr> effect_setActionItems = None,
                    effect_notice = ConfirmReconnect errorMsg,
                    effect_navigate = (if answer then Some ''/app/settings'' else None) \<rparr>
                else
                  \<lparr> effect_setActionItems = None,
                    effect_notice = AlertFailure errorMsg,
                    effect_navigate = None \<rparr>))"

text \<open>The effect on the component state.\<close>

definition applyEffect :: "convert_effect \<Rightarrow> meeting_detail \<Rightarrow> meeting_detail" where
  "applyEffect e st =
     (case effect_setActionItems e of
        None \<Rightarrow> st
      | Some items \<Rightarrow> st\<lparr> actionItems := items \<rparr>)"

text \<open>
  A conversion that nothing overlaps: the button of the current render is clicked and the
  answer arrives before any other change of the state, so the captured array is the
  current one.
\<close>

definition convertNow ::
  "convert_result fetched \<Rightarrow> bool \<Rightarrow> action_item \<Rightarrow> meeting_detail \<Rightarrow> meeting_detail" where
  "convertNow response answer actionItem st =
     applyEffect (convertActionToTask response answer (actionItems st) actionItem) st"

text \<open>A run of such conversions, one after the other, on the same loaded meeting.\<close>

record conversion =
  conv_item :: action_item
  conv_response :: "convert_result fetched"
  conv_answer :: bool

fun runConversions :: "conversion list \<Rightarrow> meeting_detail \<Rightarrow> meeting_detail" where
  "runConversions [] st = st"
| "runConversions (c # cs) st =
     runConversions cs (convertNow (conv_response c) (conv_answer c) (conv_item c) st)"

section \<open>Products page (\<open>pages/ProductsPage.jsx\<close>)\<close>

subsection \<open>Route, persona and what is rendered\<close>

record product =
  product_title :: string
  product_description :: string
  product_placeholder :: string

definition Trans2Actions :: product where
  "Trans2Actions =
     \<lparr> product_title = ''Transcript to Actions'',
       product_description = ''Convert raw meeting transcripts into actionable work items by identifying tasks, assigning them to the correct team members, extracting deadlines, and syncing everything  without manual effort.'',
       product_placeholder = ''Ask anything about Trans2Actions. Type @ for mentions.'' \<rparr>"

definition UserLoad :: product where
  "UserLoad =
     \<lparr> product_title = ''User's Workload'',
       product_description = ''Fetch your pending tasks, view upcoming deadlines, and update task status instantly using simple natural-language prompts.'',
       product_placeholder = ''Ask anything about UserLoad. Type @ for mentions.'' \<rparr>"

definition AdminPerspective :: product where
  "AdminPerspective =
     \<lparr> product_title = ''Admin's Perspective'',
       product_description = ''Assign tasks with deadlines and analyze employee performance through visual insights such as heatmaps, workload distribution charts, and progress timelines.'',
       product_placeholder = ''Ask anything about AdminPerspective. Type @ for mentions.'' \<rparr>"

text \<open>The own properties of the \<open>productInfo\<close> object, lines 11 to 27.\<close>

definition productInfo :: "string \<Rightarrow> product option" where
  "productInfo key =
     (if key = ''Trans2Actions'' then Some Trans2Actions
      else if key = ''User-Load'' then Some UserLoad
      else if key = ''AdminPerspective'' then Some AdminPerspective
      else None)"

text \<open>
  \<open>productInfo[productName]\<close> also finds what an object literal inherits from
  \<open>Object.prototype\<close>; these members are truthy, so \<open>||\<close> does not reach the default.
\<close>

definition objectPrototypeKeys :: "string list" where
  "objectPrototypeKeys =
     [''constructor'', ''__proto__'', ''hasOwnProperty'', ''isPrototypeOf'',
      ''propertyIsEnumerable'', ''toLocaleString'', ''toString'', ''valueOf'',
      ''__defineGetter__'', ''__defineSetter__'', ''__lookupGetter__'', ''__lookupSetter__'']"

text \<open>The logged-in user of the auth context; \<open>user?.persona\<close> reads through \<open>null\<close>.\<close>

record user =
  user_id :: string
  user_name :: string
  user_email :: string
  user_persona :: "string option"

definition personaOf :: "user option \<Rightarrow> string option" where
  "personaOf u = (case u of None \<Rightarrow> None | Some v \<Rightarrow> user_persona v)"

record sidebar_link =
  link_label :: string
  link_href :: string

definition allSidebarLinks :: "sidebar_link list" where
  "allSidebarLinks =
     [\<lparr> link_label = ''Trans2Actions'', link_href = ''/products/Trans2Actions'' \<rparr>,
      \<lparr> link_label = ''User-Load'', link_href = ''/products/User-Load'' \<rparr>,
      \<lparr> link_label = ''AdminPerspective'', link_href = ''/products/AdminPerspective'' \<rparr>]"

text \<open>Lines 373 to 375.\<close>

definition sidebarLinks :: "user option \<Rightarrow> sidebar_link list" where
  "sidebarLinks u =
     (if personaOf u = Some ''employee''
      then filter (\<lambda>link. link_label link \<noteq> ''AdminPerspective'') allSidebarLinks
      else allSidebarLinks)"

text \<open>
  What the page renders for a route parameter and a user.
  \<^item> \<open>Redirect path\<close>: \<open><Navigate to=path replace />\<close>, lines 51 to 53.
  \<^item> \<open>InheritedMember\<close>: the route parameter names a member of \<open>Object.prototype\<close>; lines
    45 and 48 read that member, so no product entry is displayed.
  \<^item> \<open>ProductPage\<close>: the page of a product: its title, description and placeholder, the
    sidebar links, whether the document upload is offered (only on \<open>Trans2Actions\<close>), and
    the endpoint a submitted query goes to, if any (\<open>handleSubmit\<close>).
\<close>

record page_view =
  page_product :: product
  page_sidebar :: "sidebar_link list"
  page_upload :: bool
  page_submits_to_admin :: bool

datatype products_view = Redirect string | InheritedMember | ProductPage page_view

definition renderProductsPage :: "string \<Rightarrow> user option \<Rightarrow> products_view" where
  "renderProductsPage productName u =
     (if productName = ''AdminPerspective'' \<and> personaOf u = Some ''employee''
      then Redirect ''/products/Trans2Actions''
      else if productName \<in> set objectPrototypeKeys then InheritedMember
      else
        ProductPage
          \<lparr> page_product = (case productInfo productName of
                              Some p \<Rightarrow> p
                            | None \<Rightarrow> Trans2Actions),
            page_sidebar = sidebarLinks u,
            page_upload = (productName = ''Trans2Actions''),
            page_submits_to_admin = (productName = ''AdminPerspective'') \<rparr>)"

subsection \<open>Loading the page: the auth context and the hooks\<close>

text \<open>
  The auth context (\<open>context/AuthContext.jsx\<close>).  Its state starts without a user and with
  \<open>isLoading\<close> set (lines 10 to 12).  The stored session is read by the effect of lines 14
  to 26, which runs after the first render: when both items of the browser storage are
  truthy it stores the token and the parsed user, and in every case it clears \<open>isLoading\<close>.
  The stored user is given as parsed by \<open>JSON.parse\<close>; \<open>verifyToken\<close>, which answers later,
  is not modelled.
\<close>

record auth_context =
  auth_user :: "user option"
  auth_isLoading :: bool
  auth_token :: "string option"

definition initialAuth :: auth_context where
  "initialAuth = \<lparr> auth_user = None, auth_isLoading = True, auth_token = None \<rparr>"

record local_storage =
  auraai_token :: "string option"
  auraai_user :: "user option"

definition mountAuth :: "local_storage \<Rightarrow> auth_context \<Rightarrow> auth_context" where
  "mountAuth storage st =
     (case truthy (auraai_token storage) of
        None \<Rightarrow> st\<lparr> auth_isLoading := False \<rparr>
      | Some storedToken \<Rightarrow>
          (case auraai_user storage of
             None \<Rightarrow> st\<lparr> auth_isLoading := False \<rparr>
           | Some storedUser \<Rightarrow>
               st\<lparr> auth_token := Some storedToken, auth_user := Some storedUser,
                   auth_isLoading := False \<rparr>))"

text \<open>
  The state, ref and effect hooks that one render of \<open>ProductsPage\<close> calls, in call order
  (\<open>useParams\<close> and \<open>useAuth\<close> only read contexts).  Lines 32 to 43 come before the guard
  of lines 51 to 53; the \<open>useRef\<close> of line 55 and the \<open>useEffect\<close> of line 79 come after
  it, so a render that takes the early return does not call them.
\<close>

definition hooksBeforeGuard :: "string list" where
  "hooksBeforeGuard =
     [''useState'', ''useState'', ''useState'', ''useState'', ''useState'',
      ''useRef'', ''useRef'']"

definition hooksAfterGuard :: "string list" where
  "hooksAfterGuard = [''useRef'', ''useEffect'']"

definition hooksCalled :: "string \<Rightarrow> user option \<Rightarrow> string list" where
  "hooksCalled productName u =
     (if productName = ''AdminPerspective'' \<and> personaOf u = Some ''employee''
      then hooksBeforeGuard
      else hooksBeforeGuard @ hooksAfterGuard)"

text \<open>
  What a render of the mounted page gives.  React requires a re-render of a mounted
  component to call as many hooks as its previous render did; otherwise the render throws
  (fewer or more hooks than during the previous render) and, the application having no
  error boundary, nothing of the page is shown.  The first render of a component may call
  any number of hooks.
\<close>

datatype render_result = Rendered products_view | HooksOrderError

definition rerender :: "string list \<Rightarrow> string \<Rightarrow> user option \<Rightarrow> render_result" where
  "rerender previousHooks productName u =
     (if length (hooksCalled productName u) = length previousHooks
      then Rendered (renderProductsPage productName u)
      else HooksOrderError)"

text \<open>
  Loading the URL of a product route in the browser: the route is not protected, the page
  does not look at \<open>isLoading\<close>, and so the page is first rendered with the initial auth
  state, then re-rendered with the state the mount effect leaves (the effect always changes
  \<open>isLoading\<close>, so the context value changes).  The result lists these two renders.
\<close>

definition pageLoad :: "local_storage \<Rightarrow> string \<Rightarrow> render_result list" where
  "pageLoad storage productName =
     [Rendered (renderProductsPage productName (auth_user initialAuth)),
      rerender (hooksCalled productName (auth_user initialAuth)) productName
        (auth_user (mountAuth storage initialAuth))]"

subsection \<open>Document upload\<close>

record chat_message =
  message_id :: nat
  message_type :: string
  message_text :: "string option"

record document =
  document_id :: string
  document_filename :: string

text \<open>
  The state the upload touches.  \<open>messagesByProduct\<close> is an object keyed by product name;
  its own properties are a map.
\<close>

record products_page =
  messagesByProduct :: "string \<rightharpoonup> chat_message list"
  uploading :: bool
  documents :: "document list"

definition initialProductsPage :: products_page where
  "initialProductsPage =
     \<lparr> messagesByProduct =
         [''Trans2Actions'' \<mapsto> [], ''User-Load'' \<mapsto> [], ''AdminPerspective'' \<mapsto> []],
       uploading = False,
       documents = [] \<rparr>"

text \<open>Lines 72 to 77: \<open>addMessage\<close> appends to the list of the current product.\<close>

definition addMessage :: "string \<Rightarrow> chat_message \<Rightarrow> products_page \<Rightarrow> products_page" where
  "addMessage productName message st =
     st\<lparr> messagesByProduct :=
           (messagesByProduct st)
             (productName \<mapsto>
                (case messagesByProduct st productName of None \<Rightarrow> [] | Some ms \<Rightarrow> ms)
                @ [message]) \<rparr>"

text \<open>The requests the client sends.\<close>

datatype request = UploadRequest string | DocumentsRequest

record documents_body =
  body_documents :: "document list option"

text \<open>
  Lines 94 to 108: \<open>loadDocuments\<close> stores the list of a successful answer
  (\<open>data.documents || []\<close>); any other answer, and any exception, changes nothing.
\<close>

definition loadDocuments :: "documents_body fetched \<Rightarrow> products_page \<Rightarrow> products_page" where
  "loadDocuments response st =
     (case response of
        OkBody data \<Rightarrow>
          st\<lparr> documents := (case body_documents data of None \<Rightarrow> [] | Some ds \<Rightarrow> ds) \<rparr>
      | Rejected m \<Rightarrow> st
      | NotOk status statusText body \<Rightarrow> st
      | BadBody m \<Rightarrow> st)"

record upload_body =
  upload_message :: "string option"

text \<open>The backend as the upload sees it.\<close>

record upload_backend =
  uploadResponse :: "upload_body fetched"
  documentsResponse :: "documents_body fetched"

text \<open>Lines 115 and 116: the allowed extensions and the extension of a file name.\<close>

definition allowedExtensions :: "string list" where
  "allowedExtensions = [''.pdf'', ''.txt'', ''.docx'', ''.doc'']"

definition fileExt :: "string \<Rightarrow> string option" where
  "fileExt name = map_option (\<lambda>e. ''.'' @ toLowerCase e) (pop (split CHR ''.'' name))"

text \<open>
  The message thrown for an upload answer that is not ok (lines 146 to 149): reading the
  body may itself throw.
\<close>

definition uploadErrorMessage :: "error_json \<Rightarrow> string" where
  "uploadErrorMessage body =
     (case body of
        Unparsable m \<Rightarrow> m
      | ErrorObject d \<Rightarrow> orStr d ''Failed to upload file'')"

text \<open>
  Lines 110 to 178.  \<open>file\<close> is \<open>event.target.files?.[0]\<close>, given by its name; \<open>now\<close> is
  \<open>Date.now()\<close> when the message is built.  The result is the new state and the requests
  sent, in order.  The handler is attached to the file input, which only the
  \<open>Trans2Actions\<close> page renders.  \<open>pop\<close> cannot return \<open>undefined\<close> here, since \<open>split\<close>
  returns at least one piece; the model leaves the state alone in that case.
\<close>

definition handleFileUpload ::
  "upload_backend \<Rightarrow> nat \<Rightarrow> string \<Rightarrow> string option \<Rightarrow> products_page
     \<Rightarrow> products_page \<times> request list" where
  "handleFileUpload be now productName file st =
     (case file of
        None \<Rightarrow> (st, [])
      | Some name \<Rightarrow>
          (case fileExt name of
             None \<Rightarrow> (st, [])
           | Some ext \<Rightarrow>
               if ext \<notin> set allowedExtensions
               then
                 (addMessage productName
                    \<lparr> message_id = now, message_type = ''ai'',
                      message_text =
                        Some ''Error: Unsupported file type. Supported formats: PDF, TXT, DOCX'' \<rparr>
                    st,
                  [])
               else
                 (case uploadResponse be of
                    Rejected m \<Rightarrow>
                      ((addMessage productName
                          \<lparr> message_id = now, message_type = ''ai'',
                            message_text = Some (''Error: '' @ m) \<rparr>
                          (st\<lparr> uploading := True \<rparr>))
                         \<lparr> uploading := False \<rparr>,
                       [UploadRequest name])
                  | NotOk status statusText body \<Rightarrow>
                      ((addMessage productName
                          \<lparr> message_id = now, message_type = ''ai'',
                            message_text = Some (''Error: '' @ uploadErrorMessage body) \<rparr>
                          (st\<lparr> uploading := True \<rparr>))
                         \<lparr> uploading := False \<rparr>,
                       [UploadRequest name])
                  | BadBody m \<Rightarrow>
                      ((addMessage productName
                          \<lparr> message_id = now, message_type = ''ai'',
                            message_text = Some (''Error: '' @ m) \<rparr>
                          (st\<lparr> uploading := True \<rparr>))
                         \<lparr> uploading := False \<rparr>,
                       [UploadRequest name])
                  | OkBody data \<Rightarrow>
                      ((addMessage productName
                          \<lparr> message_id = now, message_type = ''ai'',
                            message_text = upload_message data \<rparr>
                          (loadDocuments (documentsResponse be) (st\<lparr> uploading := True \<rparr>)))
                         \<lparr> uploading := False \<rparr>,
                       [UploadRequest name, DocumentsRequest]))))"

subsection \<open>Sample data\<close>

definition sampleCard :: "string \<Rightarrow> bool \<Rightarrow> string option \<Rightarrow> card" where
  "sampleCard i c d =
     \<lparr> card_id = i, card_name = ''Write minutes'', card_desc = None, card_closed = c,
       card_due = d, card_dateLastActivity = None, card_shortUrl = ''https://trello.com/c/abc'', card_url = ''https://trello.com/c/abc/1'',
       card_comments_count = None, card_checklists_count = None,
       card_list_name = ''To do'', card_list_id = ''l1'', card_dueComplete = None,
       card_labels = None \<rparr>"

text \<open>
  A sample clock: it is 2 November 2026; of the due strings, only \<open>2026-12-24T10:00:00Z\<close>
  parses.
\<close>

definition sampleEnv :: date_env where
  "sampleEnv =
     \<lparr> today = (\<lambda>i. ''2026-11-02''),
       isoDate = (\<lambda>s. if s = ''2026-12-24T10:00:00Z'' then Some ''2026-12-24'' else None),
       localeDate = (\<lambda>s. Some ''Invalid Date'') \<rparr>"

definition sampleCards :: "card list" where
  "sampleCards =
     [sampleCard ''c1'' False None,
      sampleCard ''c2'' True (Some ''2026-12-24T10:00:00Z''),
      sampleCard ''c3'' False (Some ''next week'')]"

definition sampleTasksView :: tasks_view where
  "sampleTasksView =
     \<lparr> tasks = cardsToTasks sampleEnv sampleCards, loading = False,
       filter_state = ''all'', lists = groupByList sampleCards \<rparr>"

definition sampleItemA :: action_item where
  "sampleItemA =
     \<lparr> action_id = ''action-0'', action_text = ''Send the report'',
       action_assignee = ''Sam'', action_assigned_by = None \<rparr>"

definition sampleItemB :: action_item where
  "sampleItemB =
     \<lparr> action_id = ''action-1'', action_text = ''Book a room'',
       action_assignee = ''Kim'', action_assigned_by = Some ''Sam'' \<rparr>"

definition sampleItems :: "action_item list" where
  "sampleItems = [sampleItemA, sampleItemB]"

definition sampleMeeting :: "string option \<Rightarrow> meeting" where
  "sampleMeeting t =
     \<lparr> meeting_id = ''m1'', meeting_title = ''Weekly sync'',
       meeting_date = ''2026-11-02T09:00:00Z'',
       meeting_participants = toParticipants [''Sam'', ''Kim''],
       minutesSummary = ''Plans for the week.'',
       transcript_text = t,
       meeting_actionItems = sampleItems \<rparr>"

definition sampleDetail :: "string option \<Rightarrow> meeting_detail" where
  "sampleDetail t =
     \<lparr> shown_meeting = Some (sampleMeeting t), detail_loading = False,
       actionItems = sampleItems, summaryExpanded = False, transcriptExpanded = False \<rparr>"

definition converted :: "convert_result fetched" where
  "converted =
     OkBody \<lparr> result_success = True, result_message = None, result_error = None \<rparr>"

definition sampleUser :: "string \<Rightarrow> user" where
  "sampleUser p =
     \<lparr> user_id = ''u1'', user_name = ''Sam'', user_email = ''sam@example.com'',
       user_persona = Some p \<rparr>"

text \<open>The browser storage of a logged-in user with the given persona.\<close>

definition sampleStorage :: "string \<Rightarrow> local_storage" where
  "sampleStorage p =
     \<lparr> auraai_token = Some ''token-1'', auraai_user = Some (sampleUser p) \<rparr>"

text \<open>Sample backends: one that answers, one whose settings fail, one whose cards fail.\<close>

definition sampleBackend :: backend where
  "sampleBackend =
     \<lparr> settingsResponse = OkBody \<lparr> workspace_id = Some ''b1'' \<rparr>,
       cardsResponse = (\<lambda>b. OkBody \<lparr> cards = Some sampleCards \<rparr>) \<rparr>"

definition settingsDown :: backend where
  "settingsDown =
     \<lparr> settingsResponse = NotOk 500 ''Internal Server Error'' (Unparsable ''Unexpected token''),
       cardsResponse = (\<lambda>b. OkBody \<lparr> cards = Some sampleCards \<rparr>) \<rparr>"

definition cardsDown :: backend where
  "cardsDown =
     \<lparr> settingsResponse = OkBody \<lparr> workspace_id = Some ''b1'' \<rparr>,
       cardsResponse = (\<lambda>b. NotOk 502 ''Bad Gateway'' (ErrorObject (Some ''Trello is down''))) \<rparr>"

section \<open>Properties of the tasks view\<close>

subsection \<open>The task adapter\<close>

lemma length_cardsToTasks: "length (cardsToTasks env cs) = length cs"
  by (simp add: cardsToTasks_def)

lemma nth_cardsToTasks:
  "k < length cs \<Longrightarrow> cardsToTasks env cs ! k = cardToTask env k (cs ! k)"
  by (simp add: cardsToTasks_def nth_enumerate_eq)

lemma task_ids_cardsToTasks: "map task_id (cardsToTasks env cs) = map card_id cs"
  by (rule nth_equalityI) (simp_all add: length_cardsToTasks nth_cardsToTasks cardToTask_def)

lemma dueDateOf_parsed:
  "card_due c = Some s \<Longrightarrow> s \<noteq> [] \<Longrightarrow> isoDate env s = Some d \<Longrightarrow> dueDateOf env i c = d"
  by (simp add: dueDateOf_def)

lemma dueDateOf_fallback:
  assumes "card_due c = None \<or> card_due c = Some [] \<or>
           (\<exists>s. card_due c = Some s \<and> isoDate env s = None)"
  shows "dueDateOf env i c = today env i"
  using assms by (auto simp: dueDateOf_def split: option.splits if_splits)

lemma fetchTasks_success:
  assumes "settingsResponse be = OkBody s" and "truthy (workspace_id s) = Some b"
      and "cardsResponse be b = OkBody data" and "cards data = Some cs" and "cs \<noteq> []"
  shows "fetchTasks env be st =
           st\<lparr> lists := groupByList cs, tasks := cardsToTasks env cs, loading := False \<rparr>"
  using assms by (simp add: fetchTasks_def fetchTasksBody_def)

text \<open>
  A board without cards does not reach the transform (line 77 asks for a positive
  length): the task list stays what it was.
\<close>

lemma fetchTasks_empty_board:
  assumes "settingsResponse be = OkBody s" and "truthy (workspace_id s) = Some b"
      and "cardsResponse be b = OkBody data" and "cards data = Some []"
  shows "fetchTasks env be st = st\<lparr> loading := False \<rparr>"
  using assms by (simp add: fetchTasks_def fetchTasksBody_def)

text \<open>
  \<open>fetchTasks\<close> runs once, from the mount effect, when the task list is still the initial
  empty one: there the result is the adapter's list for every card list, the empty one
  included.
\<close>

lemma fetchTasks_on_mount:
  assumes "settingsResponse be = OkBody s" and "truthy (workspace_id s) = Some b"
      and "cardsResponse be b = OkBody data" and "cards data = Some cs"
  shows "tasks (fetchTasks env be initialTasksView) = cardsToTasks env cs"
proof (cases "cs = []")
  case True
  with assms have "fetchTasks env be initialTasksView = initialTasksView\<lparr> loading := False \<rparr>"
    by (simp add: fetchTasks_empty_board)
  with True show ?thesis by (simp add: initialTasksView_def cardsToTasks_def)
next
  case False
  with assms show ?thesis by (simp add: fetchTasks_success)
qed

text \<open>
  C2.  The task adapter, lines 93 to 141, keeps the order of the cards: the task at
  position \<open>k\<close> comes from the card at position \<open>k\<close> and carries its id.  Its status is
  \<open>done\<close> if the card is closed and \<open>open\<close> otherwise.  Its due date is the calendar date
  of the card's due string when that string is present and parses; when the due string is
  missing, empty or does not parse, the due date is the current date and the transform
  goes on.  After a successful fetch of a board with at least one card, the task list of
  the view is this list; after the fetch on mount it is this list for every card list.
\<close>

theorem cardsToTasks_order_status_dueDate:
  "length (cardsToTasks env cs) = length cs
   \<and> map task_id (cardsToTasks env cs) = map card_id cs
   \<and> (\<forall>k<length cs.
         task_id (cardsToTasks env cs ! k) = card_id (cs ! k)
       \<and> task_title (cardsToTasks env cs ! k) = card_name (cs ! k)
       \<and> task_status (cardsToTasks env cs ! k) = (if card_closed (cs ! k) then ''done'' else ''open'')
       \<and> (\<forall>s d. card_due (cs ! k) = Some s \<and> s \<noteq> [] \<and> isoDate env s = Some d
              \<longrightarrow> task_dueDate (cardsToTasks env cs ! k) = d)
       \<and> (card_due (cs ! k) = None \<or> card_due (cs ! k) = Some [] \<or>
            (\<exists>s. card_due (cs ! k) = Some s \<and> isoDate env s = None)
              \<longrightarrow> task_dueDate (cardsToTasks env cs ! k) = today env k))
   \<and> (settingsResponse be = OkBody s \<and> truthy (workspace_id s) = Some b
        \<and> cardsResponse be b = OkBody data \<and> cards data = Some cs \<and> cs \<noteq> []
          \<longrightarrow> tasks (fetchTasks env be st) = cardsToTasks env cs)
   \<and> (settingsResponse be = OkBody s \<and> truthy (workspace_id s) = Some b
        \<and> cardsResponse be b = OkBody data \<and> cards data = Some cs
          \<longrightarrow> tasks (fetchTasks env be initialTasksView) = cardsToTasks env cs)"
proof -
  have per_card: "\<forall>k<length cs.
         task_id (cardsToTasks env cs ! k) = card_id (cs ! k)
       \<and> task_title (cardsToTasks env cs ! k) = card_name (cs ! k)
       \<and> task_status (cardsToTasks env cs ! k) = (if card_closed (cs ! k) then ''done'' else ''open'')
       \<and> (\<forall>s d. card_due (cs ! k) = Some s \<and> s \<noteq> [] \<and> isoDate env s = Some d
              \<longrightarrow> task_dueDate (cardsToTasks env cs ! k) = d)
       \<and> (card_due (cs ! k) = None \<or> card_due (cs ! k) = Some [] \<or>
            (\<exists>s. card_due (cs ! k) = Some s \<and> isoDate env s = None)
              \<longrightarrow> task_dueDate (cardsToTasks env cs ! k) = today env k)"
  proof (intro allI impI)
    fix k assume k: "k < length cs"
    have t: "cardsToTasks env cs ! k = cardToTask env k (cs ! k)"
      using k by (rule nth_cardsToTasks)
    have due: "task_dueDate (cardToTask env k (cs ! k)) = dueDateOf env k (cs ! k)"
      by (simp add: cardToTask_def)
    show "task_id (cardsToTasks env cs ! k) = card_id (cs ! k)
       \<and> task_title (cardsToTasks env cs ! k) = card_name (cs ! k)
       \<and> task_status (cardsToTasks env cs ! k) = (if card_closed (cs ! k) then ''done'' else ''open'')
       \<and> (\<forall>s d. card_due (cs ! k) = Some s \<and> s \<noteq> [] \<and> isoDate env s = Some d
              \<longrightarrow> task_dueDate (cardsToTasks env cs ! k) = d)
       \<and> (card_due (cs ! k) = None \<or> card_due (cs ! k) = Some [] \<or>
            (\<exists>s. card_due (cs ! k) = Some s \<and> isoDate env s = None)
              \<longrightarrow> task_dueDate (cardsToTasks env cs ! k) = today env k)"
      unfolding t due
      by (intro conjI allI impI)
         (simp_all add: cardToTask_def dueDateOf_parsed dueDateOf_fallback)
  qed
  have fetched: "settingsResponse be = OkBody s \<and> truthy (workspace_id s) = Some b
        \<and> cardsResponse be b = OkBody data \<and> cards data = Some cs \<and> cs \<noteq> []
          \<longrightarrow> tasks (fetchTasks env be st) = cardsToTasks env cs"
    by (simp add: fetchTasks_success)
  have mounted: "settingsResponse be = OkBody s \<and> truthy (workspace_id s) = Some b
        \<and> cardsResponse be b = OkBody data \<and> cards data = Some cs
          \<longrightarrow> tasks (fetchTasks env be initialTasksView) = cardsToTasks env cs"
    by (simp add: fetchTasks_on_mount)
  from per_card fetched mounted show ?thesis
    by (simp only: length_cardsToTasks task_ids_cardsToTasks simp_thms)
qed

lemma sample_tasks:
  "cardsToTasks sampleEnv sampleCards =
     [cardToTask sampleEnv 0 (sampleCard ''c1'' False None),
      cardToTask sampleEnv (Suc 0) (sampleCard ''c2'' True (Some ''2026-12-24T10:00:00Z'')),
      cardToTask sampleEnv (Suc (Suc 0)) (sampleCard ''c3'' False (Some ''next week''))]"
  by (simp add: cardsToTasks_def sampleCards_def)

theorem cardsToTasks_order_status_dueDate_witness:
  "tasks (fetchTasks sampleEnv sampleBackend initialTasksView) = cardsToTasks sampleEnv sampleCards
   \<and> length (cardsToTasks sampleEnv sampleCards) = 3
   \<and> task_status (cardsToTasks sampleEnv sampleCards ! 0) = ''open''
   \<and> task_dueDate (cardsToTasks sampleEnv sampleCards ! 0) = ''2026-11-02''
   \<and> task_status (cardsToTasks sampleEnv sampleCards ! 1) = ''done''
   \<and> task_dueDate (cardsToTasks sampleEnv sampleCards ! 1) = ''2026-12-24''
   \<and> task_status (cardsToTasks sampleEnv sampleCards ! 2) = ''open''
   \<and> task_dueDate (cardsToTasks sampleEnv sampleCards ! 2) = ''2026-11-02''"
proof -
  note spec = cardsToTasks_order_status_dueDate
    [of sampleEnv sampleCards sampleBackend "\<lparr> workspace_id = Some ''b1'' \<rparr>" "''b1''"
        "\<lparr> cards = Some sampleCards \<rparr>" initialTasksView]
  have len: "length sampleCards = 3" by (simp add: sampleCards_def)
  have c0: "sampleCards ! 0 = sampleCard ''c1'' False None"
   and c1: "sampleCards ! Suc 0 = sampleCard ''c2'' True (Some ''2026-12-24T10:00:00Z'')"
   and c2: "sampleCards ! 2 = sampleCard ''c3'' False (Some ''next week'')"
    by (simp_all add: sampleCards_def)
  have fetched: "tasks (fetchTasks sampleEnv sampleBackend initialTasksView)
                   = cardsToTasks sampleEnv sampleCards"
    using spec by (simp add: sampleBackend_def sampleCards_def)
  have n: "length (cardsToTasks sampleEnv sampleCards) = 3" using spec len by simp
  note per_card = spec [THEN conjunct2, THEN conjunct2, THEN conjunct1, rule_format]
  have k0: "task_status (cardsToTasks sampleEnv sampleCards ! 0) = ''open''
      \<and> task_dueDate (cardsToTasks sampleEnv sampleCards ! 0) = ''2026-11-02''"
    using per_card [of 0] len by (simp add: c0 sampleCard_def sampleEnv_def)
  have k1: "task_status (cardsToTasks sampleEnv sampleCards ! 1) = ''done''
      \<and> task_dueDate (cardsToTasks sampleEnv sampleCards ! 1) = ''2026-12-24''"
    using per_card [of 1] len by (simp add: c1 sampleCard_def sampleEnv_def)
  have k2: "task_status (cardsToTasks sampleEnv sampleCards ! 2) = ''open''
      \<and> task_dueDate (cardsToTasks sampleEnv sampleCards ! 2) = ''2026-11-02''"
    using per_card [of 2] len by (simp add: c2 sampleCard_def sampleEnv_def)
  from fetched n k0 k1 k2 show ?thesis by simp
qed

subsection \<open>A failed fetch\<close>

text \<open>
  C3.  When the settings request or the cards request answers with a response that is
  not ok, \<open>fetchTasks\<close> returns early: it runs no transform and calls neither \<open>setTasks\<close>
  nor \<open>setLists\<close>.  The task list and the groups are the previous ones; only \<open>loading\<close>
  is cleared.
\<close>

theorem fetchTasks_not_ok_keeps_tasks:
  "(settingsResponse be = NotOk status statusText body
      \<longrightarrow> fetchTasks env be st = st\<lparr> loading := False \<rparr>
        \<and> tasks (fetchTasks env be st) = tasks st
        \<and> lists (fetchTasks env be st) = lists st)
   \<and> (settingsResponse be = OkBody s \<and> truthy (workspace_id s) = Some b
        \<and> cardsResponse be b = NotOk status statusText body
      \<longrightarrow> fetchTasks env be st = st\<lparr> loading := False \<rparr>
        \<and> tasks (fetchTasks env be st) = tasks st
        \<and> lists (fetchTasks env be st) = lists st)"
  by (simp add: fetchTasks_def fetchTasksBody_def)

theorem fetchTasks_not_ok_keeps_tasks_witness:
  "tasks (fetchTasks sampleEnv settingsDown sampleTasksView) = tasks sampleTasksView
   \<and> tasks (fetchTasks sampleEnv cardsDown sampleTasksView) = tasks sampleTasksView
   \<and> length (tasks sampleTasksView) = 3"
proof -
  have a: "tasks (fetchTasks sampleEnv settingsDown sampleTasksView) = tasks sampleTasksView"
    using fetchTasks_not_ok_keeps_tasks
      [of settingsDown 500 "''Internal Server Error''" "Unparsable ''Unexpected token''"
          sampleEnv sampleTasksView]
    by (simp add: settingsDown_def)
  have b: "tasks (fetchTasks sampleEnv cardsDown sampleTasksView) = tasks sampleTasksView"
    using fetchTasks_not_ok_keeps_tasks
      [of cardsDown 502 "''Bad Gateway''" "ErrorObject (Some ''Trello is down'')"
          sampleEnv sampleTasksView "\<lparr> workspace_id = Some ''b1'' \<rparr>" "''b1''"]
    by (simp add: cardsDown_def)
  have c: "length (tasks sampleTasksView) = 3"
    by (simp add: sampleTasksView_def sampleCards_def length_cardsToTasks)
  from a b c show ?thesis by simp
qed

subsection \<open>Toggling a status\<close>

lemma toggleStatus_twice: "statusOk t \<Longrightarrow> toggleStatus (toggleStatus t) = t"
  by (auto simp: toggleStatus_def statusOk_def)

lemma task_id_toggleStatus [simp]: "task_id (toggleStatus t) = task_id t"
  by (simp add: toggleStatus_def)

lemma toggleStatus_changes: "task_status (toggleStatus t) \<noteq> task_status t"
  by (simp add: toggleStatus_def)

lemma statusOk_toggleStatus: "statusOk (toggleStatus t)"
  by (simp add: toggleStatus_def statusOk_def)

lemma find_present:
  "i \<in> task_id ` set ts \<Longrightarrow> \<exists>t. find (\<lambda>t. task_id t = i) ts = Some t"
  by (induction ts) auto

lemma find_absent: "i \<notin> task_id ` set ts \<Longrightarrow> find (\<lambda>t. task_id t = i) ts = None"
  by (induction ts) auto

lemma tasks_toggleTaskStatus:
  "tasks (toggleTaskStatus i st)
     = map (\<lambda>t. if task_id t = i then toggleStatus t else t) (tasks st)"
proof (cases "i \<in> task_id ` set (tasks st)")
  case True
  then obtain t where "find (\<lambda>t. task_id t = i) (tasks st) = Some t"
    using find_present by blast
  then show ?thesis by (simp add: toggleTaskStatus_def)
next
  case False
  then have "find (\<lambda>t. task_id t = i) (tasks st) = None" by (rule find_absent)
  moreover from False
  have "map (\<lambda>t. if task_id t = i then toggleStatus t else t) (tasks st) = tasks st"
    by (intro map_idI) auto
  ultimately show ?thesis by (simp add: toggleTaskStatus_def)
qed

lemma toggleTaskStatus_other_fields:
  "loading (toggleTaskStatus i st) = loading st"
  "filter_state (toggleTaskStatus i st) = filter_state st"
  "lists (toggleTaskStatus i st) = lists st"
  "tasks_view.more (toggleTaskStatus i st) = tasks_view.more st"
  by (simp_all add: toggleTaskStatus_def split: option.splits)

lemma toggle_map_twice:
  "\<forall>t\<in>set ts. statusOk t \<Longrightarrow>
   map (\<lambda>t. if task_id t = i then toggleStatus t else t)
     (map (\<lambda>t. if task_id t = i then toggleStatus t else t) ts) = ts"
  by (induction ts) (simp_all add: toggleStatus_twice)

text \<open>
  The invariant of the data model holds in every state the view reaches: the adapter
  writes only \<open>open\<close> and \<open>done\<close>, and neither a fetch nor a toggle breaks it.
\<close>

lemma statusOk_initial: "\<forall>t\<in>set (tasks initialTasksView). statusOk t"
  by (simp add: initialTasksView_def)

lemma statusOk_cardsToTasks: "t \<in> set (cardsToTasks env cs) \<Longrightarrow> statusOk t"
  by (auto simp: cardsToTasks_def cardToTask_def statusOk_def)

lemma statusOk_fetchTasks:
  assumes "\<forall>t\<in>set (tasks st). statusOk t"
  shows "\<forall>t\<in>set (tasks (fetchTasks env be st)). statusOk t"
  using assms
  by (auto simp: fetchTasks_def fetchTasksBody_def statusOk_cardsToTasks
           split: fetched.splits option.splits)

lemma statusOk_toggleTaskStatus:
  assumes "\<forall>t\<in>set (tasks st). statusOk t"
  shows "\<forall>t\<in>set (tasks (toggleTaskStatus i st)). statusOk t"
  using assms by (auto simp: tasks_toggleTaskStatus statusOk_toggleStatus)

text \<open>
  C5.  In a task list whose statuses are \<open>open\<close> or \<open>done\<close>, toggling an id that is
  present twice gives back the state before the first toggle, so every task carrying
  the id has its original status again, while one toggle does change that status.
  After the first toggle and after the second, the list has the same length and every
  task with another id is the same task at the same position.
\<close>

theorem toggleTaskStatus_twice:
  assumes present: "i \<in> task_id ` set (tasks st)"
      and ok: "\<forall>t\<in>set (tasks st). statusOk t"
  shows "toggleTaskStatus i (toggleTaskStatus i st) = st
       \<and> (\<forall>k<length (tasks st). task_id (tasks st ! k) = i \<longrightarrow>
             task_status (tasks (toggleTaskStatus i st) ! k) \<noteq> task_status (tasks st ! k)
           \<and> task_status (tasks (toggleTaskStatus i (toggleTaskStatus i st)) ! k)
               = task_status (tasks st ! k))
       \<and> length (tasks (toggleTaskStatus i st)) = length (tasks st)
       \<and> length (tasks (toggleTaskStatus i (toggleTaskStatus i st))) = length (tasks st)
       \<and> (\<forall>k<length (tasks st). task_id (tasks st ! k) \<noteq> i \<longrightarrow>
             tasks (toggleTaskStatus i st) ! k = tasks st ! k
           \<and> tasks (toggleTaskStatus i (toggleTaskStatus i st)) ! k
               = tasks (toggleTaskStatus i st) ! k)"
proof -
  have twice: "tasks (toggleTaskStatus i (toggleTaskStatus i st)) = tasks st"
    using ok by (simp only: tasks_toggleTaskStatus toggle_map_twice)
  have restored: "toggleTaskStatus i (toggleTaskStatus i st) = st"
    by (rule tasks_view.equality) (simp_all add: twice toggleTaskStatus_other_fields)
  have len: "length (tasks (toggleTaskStatus i st)) = length (tasks st)"
    by (simp add: tasks_toggleTaskStatus)
  have same_id: "\<forall>k<length (tasks st). task_id (tasks st ! k) = i \<longrightarrow>
             task_status (tasks (toggleTaskStatus i st) ! k) \<noteq> task_status (tasks st ! k)
           \<and> task_status (tasks (toggleTaskStatus i (toggleTaskStatus i st)) ! k)
               = task_status (tasks st ! k)"
    by (simp add: twice) (simp add: tasks_toggleTaskStatus toggleStatus_changes)
  have others: "\<forall>k<length (tasks st). task_id (tasks st ! k) \<noteq> i \<longrightarrow>
             tasks (toggleTaskStatus i st) ! k = tasks st ! k
           \<and> tasks (toggleTaskStatus i (toggleTaskStatus i st)) ! k
               = tasks (toggleTaskStatus i st) ! k"
    by (simp add: twice) (simp add: tasks_toggleTaskStatus)
  from restored len same_id others show ?thesis by (simp only: twice simp_thms)
qed

lemma sampleTasksView_statusOk: "\<forall>t\<in>set (tasks sampleTasksView). statusOk t"
  by (simp add: sampleTasksView_def statusOk_cardsToTasks)

theorem toggleTaskStatus_twice_witness:
  "toggleTaskStatus ''c2'' (toggleTaskStatus ''c2'' sampleTasksView) = sampleTasksView
   \<and> task_status (tasks sampleTasksView ! 1) = ''done''
   \<and> task_status (tasks (toggleTaskStatus ''c2'' sampleTasksView) ! 1) \<noteq> ''done''
   \<and> tasks (toggleTaskStatus ''c2'' sampleTasksView) ! 0 = tasks sampleTasksView ! 0
   \<and> tasks (toggleTaskStatus ''c2'' sampleTasksView) ! 2 = tasks sampleTasksView ! 2"
proof -
  have ts: "tasks sampleTasksView = cardsToTasks sampleEnv sampleCards"
    by (simp add: sampleTasksView_def)
  have len: "length (tasks sampleTasksView) = 3"
    by (simp add: ts length_cardsToTasks sampleCards_def)
  have id0: "task_id (tasks sampleTasksView ! 0) = ''c1''"
   and id1: "task_id (tasks sampleTasksView ! 1) = ''c2''"
   and id2: "task_id (tasks sampleTasksView ! 2) = ''c3''"
   and st1: "task_status (tasks sampleTasksView ! 1) = ''done''"
    by (simp_all add: ts sample_tasks cardToTask_def sampleCard_def)
  have present: "''c2'' \<in> task_id ` set (tasks sampleTasksView)"
    using id1 len by (metis imageI nth_mem one_less_numeral_iff semiring_norm(77))
  note spec = toggleTaskStatus_twice [OF present sampleTasksView_statusOk]
  note same_id = spec [THEN conjunct2, THEN conjunct1, rule_format]
  note others = spec [THEN conjunct2, THEN conjunct2, THEN conjunct2, THEN conjunct2,
                      rule_format]
  have a: "toggleTaskStatus ''c2'' (toggleTaskStatus ''c2'' sampleTasksView) = sampleTasksView"
    using spec by simp
  have b: "task_status (tasks (toggleTaskStatus ''c2'' sampleTasksView) ! 1) \<noteq> ''done''"
    using same_id [of 1] len id1 st1 by simp
  have c: "tasks (toggleTaskStatus ''c2'' sampleTasksView) ! 0 = tasks sampleTasksView ! 0"
    using others [of 0] len id0 by simp
  have d: "tasks (toggleTaskStatus ''c2'' sampleTasksView) ! 2 = tasks sampleTasksView ! 2"
    using others [of 2] len id2 by simp
  from a st1 b c d show ?thesis by simp
qed

subsection \<open>Filtering\<close>

text \<open>
  C6.  The filter is a function of the filter name and the task list: filtering the
  filtered list again with the same name changes nothing, whatever the name is.  The
  result is what \<open>filter\<close> keeps of the list, in the list's order: everything for \<open>all\<close>,
  the tasks with status \<open>open\<close> for \<open>open\<close>, those with status \<open>done\<close> for \<open>done\<close>.  Choosing
  a filter stores its name only, and showing the filtered tasks reads the state: the task
  list of the state, and so its length and order, stay the same.
\<close>

theorem filteredTasks_idempotent_pure:
  "filteredTasks p (filteredTasks p ts) = filteredTasks p ts
   \<and> shownTasks (setFilter p st) = filteredTasks p (tasks st)
   \<and> tasks (setFilter p st) = tasks st
   \<and> length (tasks (setFilter p st)) = length (tasks st)
   \<and> filteredTasks ''all'' ts = ts
   \<and> filteredTasks ''open'' ts = filter (\<lambda>t. task_status t = ''open'') ts
   \<and> filteredTasks ''done'' ts = filter (\<lambda>t. task_status t = ''done'') ts"
  by (simp add: filteredTasks_def setFilter_def shownTasks_def)

section \<open>Properties of the meeting views\<close>

subsection \<open>Participants\<close>

lemma sam_lowered: "toLowerCase ''Sam'' = ''sam'' \<and> toLowerCase ''sam'' = ''sam''"
  by code_simp

text \<open>
  C8, as the code has it.  The meeting adapter maps every name of the participant list
  to one entry, in order: the entry's id is the lower-cased name and its name is the name
  as given.  Nothing is merged: the result is as long as the list of names, and two names
  that differ only by letter case give two entries that share one id.  Both the detail
  view and the meetings list build their participants this way.
\<close>

theorem toParticipants_keeps_every_name:
  "length (toParticipants names) = length names
   \<and> map participant_name (toParticipants names) = names
   \<and> map participant_id (toParticipants names) = map toLowerCase names
   \<and> (\<forall>i j. i < length names \<and> j < length names
              \<and> toLowerCase (names ! i) = toLowerCase (names ! j)
          \<longrightarrow> participant_id (toParticipants names ! i)
                = participant_id (toParticipants names ! j))
   \<and> meeting_participants (transformMeeting d) = toParticipants (raw_participants d)
   \<and> (\<forall>l. listMeeting d = Some l
          \<longrightarrow> listed_participants l = toParticipants (raw_participants d))"
  by (auto simp: toParticipants_def transformMeeting_def listMeeting_def comp_def
           split: option.splits)

theorem toParticipants_keeps_every_name_witness:
  "length (toParticipants [''Sam'', ''sam'']) = 2
   \<and> participant_id (toParticipants [''Sam'', ''sam''] ! 0) = ''sam''
   \<and> participant_id (toParticipants [''Sam'', ''sam''] ! 1) = ''sam''
   \<and> map participant_name (toParticipants [''Sam'', ''sam'']) = [''Sam'', ''sam'']"
proof -
  note spec = toParticipants_keeps_every_name [of "[''Sam'', ''sam'']"]
  note same = spec [THEN conjunct2, THEN conjunct2, THEN conjunct2, THEN conjunct1,
                    rule_format, of 0 1]
  have len: "length (toParticipants [''Sam'', ''sam'']) = 2" using spec by simp
  have names: "map participant_name (toParticipants [''Sam'', ''sam'']) = [''Sam'', ''sam'']"
    using spec by simp
  have ids: "map participant_id (toParticipants [''Sam'', ''sam'']) = [''sam'', ''sam'']"
    using spec sam_lowered by simp
  have first: "participant_id (toParticipants [''Sam'', ''sam''] ! 0) = ''sam''"
    using ids len nth_map [of 0 "toParticipants [''Sam'', ''sam'']" participant_id] by simp
  have "participant_id (toParticipants [''Sam'', ''sam''] ! 0)
          = participant_id (toParticipants [''Sam'', ''sam''] ! 1)"
    using same sam_lowered by simp
  with first have second: "participant_id (toParticipants [''Sam'', ''sam''] ! 1) = ''sam''"
    by simp
  from len first second names show ?thesis by simp
qed

text \<open>
  C8 as stated fails: for the participants \<open>Sam\<close> and \<open>sam\<close> the adapter returns two
  entries, not one.
\<close>

theorem sam_and_sam_stay_two_entries:
  "toParticipants [''Sam'', ''sam'']
     = [\<lparr> participant_id = ''sam'', participant_name = ''Sam'' \<rparr>,
        \<lparr> participant_id = ''sam'', participant_name = ''sam'' \<rparr>]
   \<and> length (toParticipants [''Sam'', ''sam'']) \<noteq> 1"
  using sam_lowered by (simp add: toParticipants_def)

subsection \<open>The transcript block\<close>

text \<open>
  C7, as the code has it.  The detail view of a loaded meeting with a transcript string
  \<open>t\<close> shows:
  \<^item> \<open>t\<close> itself and no button, when \<open>t\<close> is not empty and has at most 1000 code units;
  \<^item> the first 1000 code units of \<open>t\<close> followed by three dots, and a button labelled
    \<open>Read more\<close>, when \<open>t\<close> is longer than 1000 and the transcript is not expanded;
  \<^item> \<open>t\<close> itself and a button labelled \<open>Read less\<close>, when \<open>t\<close> is longer than 1000 and the
    transcript is expanded;
  \<^item> the placeholder \<open>Transcript not available\<close> and no button, when \<open>t\<close> is empty.
  A view starts with the transcript not expanded, loading a meeting does not expand it,
  and the button flips the flag.
\<close>

theorem transcript_truncation:
  "(detail_loading st = False \<and> shown_meeting st = Some m \<and> transcript_text m = Some t
      \<longrightarrow> (\<exists>v. renderMeetingDetail st = MeetingShown v
            \<and> (t \<noteq> [] \<and> length t \<le> 1000
                 \<longrightarrow> view_transcript v = t \<and> view_transcriptControl v = None)
            \<and> (length t > 1000 \<and> \<not> transcriptExpanded st
                 \<longrightarrow> view_transcript v = take 1000 t @ ''...''
                   \<and> view_transcriptControl v = Some ''Read more'')
            \<and> (length t > 1000 \<and> transcriptExpanded st
                 \<longrightarrow> view_transcript v = t
                   \<and> view_transcriptControl v = Some ''Read less'')
            \<and> (t = []
                 \<longrightarrow> view_transcript v = ''Transcript not available''
                   \<and> view_transcriptControl v = None)))
   \<and> transcriptExpanded initialMeetingDetail = False
   \<and> transcriptExpanded (loadMeeting response st) = transcriptExpanded st
   \<and> transcriptExpanded (toggleTranscriptExpanded st) = (\<not> transcriptExpanded st)"
  by (auto simp: renderMeetingDetail_def transcriptShown_def transcriptControl_def
                 TRANSCRIPT_TRUNCATE_LENGTH_def orStr_def initialMeetingDetail_def
                 loadMeeting_def toggleTranscriptExpanded_def
           split: fetched.splits)

theorem transcript_truncation_witness:
  "(\<exists>v. renderMeetingDetail (sampleDetail (Some (replicate 1001 CHR ''a''))) = MeetingShown v
        \<and> view_transcript v = replicate 1000 CHR ''a'' @ ''...''
        \<and> view_transcriptControl v = Some ''Read more'')
   \<and> (\<exists>v. renderMeetingDetail (sampleDetail (Some (replicate 1000 CHR ''a''))) = MeetingShown v
        \<and> view_transcript v = replicate 1000 CHR ''a''
        \<and> view_transcriptControl v = None)
   \<and> (\<exists>v. renderMeetingDetail
               (toggleTranscriptExpanded (sampleDetail (Some (replicate 1001 CHR ''a''))))
             = MeetingShown v
        \<and> view_transcript v = replicate 1001 CHR ''a''
        \<and> view_transcriptControl v = Some ''Read less'')"
proof -
  have long:
    "\<exists>v. renderMeetingDetail (sampleDetail (Some (replicate 1001 CHR ''a''))) = MeetingShown v
        \<and> view_transcript v = replicate 1000 CHR ''a'' @ ''...''
        \<and> view_transcriptControl v = Some ''Read more''"
    using transcript_truncation
      [of "sampleDetail (Some (replicate 1001 CHR ''a''))"
          "sampleMeeting (Some (replicate 1001 CHR ''a''))" "replicate 1001 CHR ''a''"]
    by (simp add: sampleDetail_def sampleMeeting_def)
  have short:
    "\<exists>v. renderMeetingDetail (sampleDetail (Some (replicate 1000 CHR ''a''))) = MeetingShown v
        \<and> view_transcript v = replicate 1000 CHR ''a''
        \<and> view_transcriptControl v = None"
    using transcript_truncation
      [of "sampleDetail (Some (replicate 1000 CHR ''a''))"
          "sampleMeeting (Some (replicate 1000 CHR ''a''))" "replicate 1000 CHR ''a''"]
    by (simp add: sampleDetail_def sampleMeeting_def)
  have expanded:
    "\<exists>v. renderMeetingDetail
               (toggleTranscriptExpanded (sampleDetail (Some (replicate 1001 CHR ''a''))))
             = MeetingShown v
        \<and> view_transcript v = replicate 1001 CHR ''a''
        \<and> view_transcriptControl v = Some ''Read less''"
    using transcript_truncation
      [of "toggleTranscriptExpanded (sampleDetail (Some (replicate 1001 CHR ''a'')))"
          "sampleMeeting (Some (replicate 1001 CHR ''a''))" "replicate 1001 CHR ''a''"]
    by (simp add: sampleDetail_def sampleMeeting_def toggleTranscriptExpanded_def)
  from long short expanded show ?thesis by simp
qed

text \<open>
  C7 as stated fails for the empty transcript: it has at most 1000 characters, and the
  view shows the placeholder instead of the (empty) transcript text.
\<close>

theorem empty_transcript_shows_placeholder:
  "length ('''' :: string) \<le> 1000
   \<and> renderMeetingDetail (sampleDetail (Some ''''))
       = MeetingShown
           \<lparr> view_title = ''Weekly sync'',
             view_summary = ''Plans for the week.'',
             view_summaryControl = None,
             view_participants = toParticipants [''Sam'', ''Kim''],
             view_transcript = ''Transcript not available'',
             view_transcriptControl = None,
             view_actionItems = sampleItems \<rparr>
   \<and> ''Transcript not available'' \<noteq> ('''' :: string)"
  by (simp add: renderMeetingDetail_def sampleDetail_def sampleMeeting_def
                transcriptShown_def transcriptControl_def orStr_def
                summaryText_def summaryControl_def SUMMARY_TRUNCATE_LENGTH_def)

subsection \<open>Converting an action item\<close>

lemma convertNow_items_subset:
  "set (actionItems (convertNow response answer item st)) \<subseteq> set (actionItems st)"
  by (auto simp: convertNow_def convertActionToTask_def applyEffect_def Let_def
           split: fetched.splits)

lemma runConversions_items_subset:
  "set (actionItems (runConversions cs st)) \<subseteq> set (actionItems st)"
proof (induction cs arbitrary: st)
  case Nil
  show ?case by simp
next
  case (Cons c cs)
  have "set (actionItems (runConversions (c # cs) st))
          \<subseteq> set (actionItems (convertNow (conv_response c) (conv_answer c) (conv_item c) st))"
    using Cons.IH by simp
  also have "\<dots> \<subseteq> set (actionItems st)" by (rule convertNow_items_subset)
  finally show ?case .
qed

lemma convertNow_success:
  assumes "response = OkBody r" and "result_success r"
  shows "actionItems (convertNow response answer item st)
           = filter (\<lambda>ai. action_id ai \<noteq> action_id item) (actionItems st)"
  using assms by (simp add: convertNow_def convertActionToTask_def applyEffect_def)

lemma convertNow_failure:
  assumes "\<forall>r. response = OkBody r \<longrightarrow> \<not> result_success r"
  shows "convertNow response answer item st = st"
  using assms
  by (cases response)
     (simp_all add: convertNow_def convertActionToTask_def applyEffect_def Let_def)

lemma removed_stays_removed:
  assumes "response = OkBody r" and "result_success r"
  shows "action_id item
           \<notin> action_id ` set (actionItems (runConversions later
                                             (convertNow response answer item st)))"
proof -
  have "set (actionItems (runConversions later (convertNow response answer item st)))
          \<subseteq> set (actionItems (convertNow response answer item st))"
    by (rule runConversions_items_subset)
  moreover have "action_id item
                   \<notin> action_id ` set (actionItems (convertNow response answer item st))"
    using assms by (auto simp: convertNow_success)
  ultimately show ?thesis by blast
qed

text \<open>
  The handler filters the array it captured when it was created.  When two conversions
  overlap, both started from the render that shows both items, the second answer stores
  a list computed from that old array and the item removed by the first is back.
\<close>

lemma overlapping_conversions_restore_item:
  "actionItems
     (applyEffect (convertActionToTask converted False sampleItems sampleItemB)
        (applyEffect (convertActionToTask converted False sampleItems sampleItemA)
           (sampleDetail None)))
     = [sampleItemA]"
  by (simp add: applyEffect_def convertActionToTask_def converted_def sampleItems_def
                sampleItemA_def sampleItemB_def)

text \<open>
  C4, as the code has it.  For a conversion that no other conversion overlaps:
  \<^item> on a successful answer whose body reports success, the action-item list becomes the
    previous list without the items carrying the converted item's id, a success alert is
    shown, and no later conversion of this kind brings the id back;
  \<^item> on every other answer the state is unchanged and the reason is shown;
  \<^item> a successful answer whose body reports failure with an error text that contains
    \<open>permission\<close> or \<open>unauthorized\<close> (in any letter case) opens the dialog that offers to
    reconnect, and the view navigates to \<open>/app/settings\<close> exactly when the user accepts;
    any other error text of such a body is shown in a plain alert;
  \<^item> an answer that is not ok, a rejected request and an unreadable body end in the plain
    alert \<open>Failed to convert action item to task:\<close> followed by the error's message,
    whatever that message says, and never navigate.
\<close>

theorem convertActionToTask_transition:
  "(response = OkBody r \<and> result_success r
      \<longrightarrow> actionItems (convertNow response answer item st)
            = filter (\<lambda>ai. action_id ai \<noteq> action_id item) (actionItems st)
        \<and> item \<notin> set (actionItems (convertNow response answer item st))
        \<and> (\<forall>later. action_id item
              \<notin> action_id ` set (actionItems (runConversions later
                                                (convertNow response answer item st))))
        \<and> effect_notice (convertActionToTask response answer (actionItems st) item)
            = AlertSuccess (orStr (result_message r)
                              ''Action item converted to task successfully!'')
        \<and> effect_navigate (convertActionToTask response answer (actionItems st) item) = None)
   \<and> ((\<forall>r'. response = OkBody r' \<longrightarrow> \<not> result_success r')
      \<longrightarrow> convertNow response answer item st = st
        \<and> effect_setActionItems (convertActionToTask response answer captured item) = None)
   \<and> (response = OkBody r \<and> \<not> result_success r
        \<and> isPermissionError (orStr (result_error r) ''Failed to convert action item to task'')
      \<longrightarrow> effect_notice (convertActionToTask response answer captured item)
            = ConfirmReconnect (orStr (result_error r) ''Failed to convert action item to task'')
        \<and> effect_navigate (convertActionToTask response answer captured item)
            = (if answer then Some ''/app/settings'' else None))
   \<and> (response = OkBody r \<and> \<not> result_success r
        \<and> \<not> isPermissionError (orStr (result_error r) ''Failed to convert action item to task'')
      \<longrightarrow> effect_notice (convertActionToTask response answer captured item)
            = AlertFailure (orStr (result_error r) ''Failed to convert action item to task'')
        \<and> effect_navigate (convertActionToTask response answer captured item) = None)
   \<and> (response = NotOk status statusText body
      \<longrightarrow> effect_notice (convertActionToTask response answer captured item)
            = AlertFailure (''Failed to convert action item to task: ''
                            @ httpErrorMessage status statusText body)
        \<and> effect_navigate (convertActionToTask response answer captured item) = None)
   \<and> (response = Rejected m \<or> response = BadBody m
      \<longrightarrow> effect_notice (convertActionToTask response answer captured item)
            = AlertFailure (''Failed to convert action item to task: '' @ m)
        \<and> effect_navigate (convertActionToTask response answer captured item) = None)"
proof -
  have success: "response = OkBody r \<and> result_success r
      \<longrightarrow> actionItems (convertNow response answer item st)
            = filter (\<lambda>ai. action_id ai \<noteq> action_id item) (actionItems st)
        \<and> item \<notin> set (actionItems (convertNow response answer item st))
        \<and> (\<forall>later. action_id item
              \<notin> action_id ` set (actionItems (runConversions later
                                                (convertNow response answer item st))))
        \<and> effect_notice (convertActionToTask response answer (actionItems st) item)
            = AlertSuccess (orStr (result_message r)
                              ''Action item converted to task successfully!'')
        \<and> effect_navigate (convertActionToTask response answer (actionItems st) item) = None"
    by (intro impI conjI allI)
       (simp_all add: convertNow_success removed_stays_removed,
        simp_all add: convertActionToTask_def)
  have failure: "(\<forall>r'. response = OkBody r' \<longrightarrow> \<not> result_success r')
      \<longrightarrow> convertNow response answer item st = st
        \<and> effect_setActionItems (convertActionToTask response answer captured item) = None"
    by (cases response) (simp_all add: convertNow_failure convertActionToTask_def Let_def)
  have rest: "(response = OkBody r \<and> \<not> result_success r
        \<and> isPermissionError (orStr (result_error r) ''Failed to convert action item to task'')
      \<longrightarrow> effect_notice (convertActionToTask response answer captured item)
            = ConfirmReconnect (orStr (result_error r) ''Failed to convert action item to task'')
        \<and> effect_navigate (convertActionToTask response answer captured item)
            = (if answer then Some ''/app/settings'' else None))
   \<and> (response = OkBody r \<and> \<not> result_success r
        \<and> \<not> isPermissionError (orStr (result_error r) ''Failed to convert action item to task'')
      \<longrightarrow> effect_notice (convertActionToTask response answer captured item)
            = AlertFailure (orStr (result_error r) ''Failed to convert action item to task'')
        \<and> effect_navigate (convertActionToTask response answer captured item) = None)
   \<and> (response = NotOk status statusText body
      \<longrightarrow> effect_notice (convertActionToTask response answer captured item)
            = AlertFailure (''Failed to convert action item to task: ''
                            @ httpErrorMessage status statusText body)
        \<and> effect_navigate (convertActionToTask response answer captured item) = None)
   \<and> (response = Rejected m \<or> response = BadBody m
      \<longrightarrow> effect_notice (convertActionToTask response answer captured item)
            = AlertFailure (''Failed to convert action item to task: '' @ m)
        \<and> effect_navigate (convertActionToTask response answer captured item) = None)"
    by (auto simp: convertActionToTask_def Let_def)
  from success failure rest show ?thesis by blast
qed

lemma permission_texts:
  "isPermissionError ''Insufficient permissions to write to the board''"
  "isPermissionError ''Permission denied''"
  "\<not> isPermissionError ''Board not found''"
  by code_simp+

theorem convertActionToTask_transition_witness:
  "actionItems (convertNow converted False sampleItemA (sampleDetail None)) = [sampleItemB]
   \<and> effect_notice
       (convertActionToTask
          (OkBody \<lparr> result_success = False, result_message = None,
                    result_error = Some ''Insufficient permissions to write to the board'' \<rparr>)
          True sampleItems sampleItemA)
       = ConfirmReconnect ''Insufficient permissions to write to the board''
   \<and> effect_navigate
       (convertActionToTask
          (OkBody \<lparr> result_success = False, result_message = None,
                    result_error = Some ''Insufficient permissions to write to the board'' \<rparr>)
          True sampleItems sampleItemA)
       = Some ''/app/settings''
   \<and> convertNow (Rejected ''Failed to fetch'') False sampleItemA (sampleDetail None)
       = sampleDetail None
   \<and> effect_notice
       (convertActionToTask
          (NotOk 500 ''Internal Server Error'' (ErrorObject (Some ''Board not found'')))
          True sampleItems sampleItemA)
       = AlertFailure ''Failed to convert action item to task: Board not found''"
proof -
  have items: "actionItems (sampleDetail None) = [sampleItemA, sampleItemB]"
    by (simp add: sampleDetail_def sampleItems_def)
  have ids: "action_id sampleItemA \<noteq> action_id sampleItemB"
    by (simp add: sampleItemA_def sampleItemB_def)
  have success:
    "actionItems (convertNow converted False sampleItemA (sampleDetail None)) = [sampleItemB]"
    using convertActionToTask_transition
      [of converted "\<lparr> result_success = True, result_message = None, result_error = None \<rparr>"
          False sampleItemA "sampleDetail None"]
      items ids
    by (simp add: converted_def)
  have permission:
    "effect_notice
       (convertActionToTask
          (OkBody \<lparr> result_success = False, result_message = None,
                    result_error = Some ''Insufficient permissions to write to the board'' \<rparr>)
          True sampleItems sampleItemA)
       = ConfirmReconnect ''Insufficient permissions to write to the board''
     \<and> effect_navigate
       (convertActionToTask
          (OkBody \<lparr> result_success = False, result_message = None,
                    result_error = Some ''Insufficient permissions to write to the board'' \<rparr>)
          True sampleItems sampleItemA)
       = Some ''/app/settings''"
    using convertActionToTask_transition
      [of "OkBody \<lparr> result_success = False, result_message = None,
                     result_error = Some ''Insufficient permissions to write to the board'' \<rparr>"
          "\<lparr> result_success = False, result_message = None,
             result_error = Some ''Insufficient permissions to write to the board'' \<rparr>"
          True sampleItemA "sampleDetail None" sampleItems]
      permission_texts(1)
    by (simp add: orStr_def)
  have failure:
    "convertNow (Rejected ''Failed to fetch'') False sampleItemA (sampleDetail None)
       = sampleDetail None"
    using convertActionToTask_transition
      [of "Rejected ''Failed to fetch''" _ False sampleItemA "sampleDetail None"]
    by simp
  have not_ok:
    "effect_notice
       (convertActionToTask
          (NotOk 500 ''Internal Server Error'' (ErrorObject (Some ''Board not found'')))
          True sampleItems sampleItemA)
       = AlertFailure ''Failed to convert action item to task: Board not found''"
    using convertActionToTask_transition
      [of "NotOk 500 ''Internal Server Error'' (ErrorObject (Some ''Board not found''))"
          _ True sampleItemA _ sampleItems 500 "''Internal Server Error''"
          "ErrorObject (Some ''Board not found'')"]
    by (simp add: httpErrorMessage_def orStr_def)
  from success permission failure not_ok show ?thesis by simp
qed

text \<open>
  C4 as stated fails for a permission failure that arrives as a response that is not ok:
  the answer \<open>403 Forbidden\<close> with the detail \<open>Permission denied\<close>, a text that the code's
  own permission test accepts, ends in the plain failure alert; no reconnect dialog is
  shown and the view does not navigate, even if the user would accept.
\<close>

theorem permission_denied_response_gets_plain_alert:
  "isPermissionError ''Permission denied''
   \<and> effect_notice
       (convertActionToTask
          (NotOk 403 ''Forbidden'' (ErrorObject (Some ''Permission denied'')))
          True sampleItems sampleItemA)
       = AlertFailure ''Failed to convert action item to task: Permission denied''
   \<and> effect_navigate
       (convertActionToTask
          (NotOk 403 ''Forbidden'' (ErrorObject (Some ''Permission denied'')))
          True sampleItems sampleItemA)
       = None"
  using permission_texts(2)
  by (simp add: convertActionToTask_def httpErrorMessage_def orStr_def)

section \<open>Properties of the products page\<close>

subsection \<open>The admin-only product\<close>

lemma not_inherited:
  "''AdminPerspective'' \<notin> set objectPrototypeKeys"
  "''Trans2Actions'' \<notin> set objectPrototypeKeys"
  by (simp_all add: objectPrototypeKeys_def)

lemma other_products:
  "Trans2Actions \<noteq> AdminPerspective" "UserLoad \<noteq> AdminPerspective"
  by (simp_all add: Trans2Actions_def UserLoad_def AdminPerspective_def)

lemma employee_sidebar:
  "personaOf u = Some ''employee'' \<Longrightarrow>
   sidebarLinks u =
     [\<lparr> link_label = ''Trans2Actions'', link_href = ''/products/Trans2Actions'' \<rparr>,
      \<lparr> link_label = ''User-Load'', link_href = ''/products/User-Load'' \<rparr>]"
  by (simp add: sidebarLinks_def allSidebarLinks_def)

lemma employee_page_not_admin:
  assumes "personaOf u = Some ''employee''"
      and "renderProductsPage productName u = ProductPage v"
  shows "page_product v \<noteq> AdminPerspective \<and> \<not> page_submits_to_admin v
         \<and> ''AdminPerspective'' \<notin> link_label ` set (page_sidebar v)"
proof -
  from assms have name: "productName \<noteq> ''AdminPerspective''"
    by (auto simp: renderProductsPage_def)
  from assms name have v: "v = \<lparr> page_product = (case productInfo productName of
                              Some p \<Rightarrow> p
                            | None \<Rightarrow> Trans2Actions),
            page_sidebar = sidebarLinks u,
            page_upload = (productName = ''Trans2Actions''),
            page_submits_to_admin = (productName = ''AdminPerspective'') \<rparr>"
    by (simp add: renderProductsPage_def split: if_splits)
  have "(case productInfo productName of Some p \<Rightarrow> p | None \<Rightarrow> Trans2Actions)
          \<noteq> AdminPerspective"
    using name other_products by (simp add: productInfo_def)
  then show ?thesis
    using name assms(1) by (simp add: v employee_sidebar)
qed

text \<open>
  The guard is for the persona \<open>employee\<close> only.  A visitor without a user (also the auth
  context before it has read the stored user) is shown every product, as the navigation
  bar's comment says: admins and non-logged-in users see all products.
\<close>

lemma visitor_sees_admin_product:
  "renderProductsPage ''AdminPerspective'' None
     = ProductPage
         \<lparr> page_product = AdminPerspective,
           page_sidebar = allSidebarLinks,
           page_upload = False,
           page_submits_to_admin = True \<rparr>"
  using not_inherited
  by (simp add: renderProductsPage_def productInfo_def sidebarLinks_def personaOf_def)

text \<open>
  In a render in which the context already holds the user, the component function does
  what its comment says: it returns the redirect for an employee, whatever else is in the
  state, and never the admin product; it returns the admin product for an admin.
\<close>

lemma known_employee_gets_redirect:
  "personaOf u = Some ''employee'' \<Longrightarrow>
   renderProductsPage ''AdminPerspective'' u = Redirect ''/products/Trans2Actions''"
  by (simp add: renderProductsPage_def)

lemma known_admin_sees_admin_product:
  "personaOf u = Some ''admin'' \<Longrightarrow>
   renderProductsPage ''AdminPerspective'' u
     = ProductPage
         \<lparr> page_product = AdminPerspective,
           page_sidebar = allSidebarLinks,
           page_upload = False,
           page_submits_to_admin = True \<rparr>"
  using not_inherited
  by (simp add: renderProductsPage_def productInfo_def sidebarLinks_def)

lemma mountAuth_reads_stored_user:
  "truthy (auraai_token storage) = Some t \<Longrightarrow> auraai_user storage = Some u \<Longrightarrow>
   auth_user (mountAuth storage initialAuth) = Some u"
  by (simp add: mountAuth_def)

lemma hooks_counts:
  "length (hooksCalled ''AdminPerspective'' None) = 9"
  "personaOf u = Some ''employee'' \<Longrightarrow> length (hooksCalled ''AdminPerspective'' u) = 7"
  "personaOf u = Some ''admin'' \<Longrightarrow> length (hooksCalled ''AdminPerspective'' u) = 9"
  by (simp_all add: hooksCalled_def hooksBeforeGuard_def hooksAfterGuard_def personaOf_def)

text \<open>
  C1, at the direct navigation the claim names.  A logged-in employee (token and user with
  persona \<open>employee\<close> in the browser storage) loads \<open>/products/AdminPerspective\<close>.  The first
  render has no user yet and shows the \<open>AdminPerspective\<close> product with all three sidebar
  links.  Once the stored user is read, the component function returns the redirect to
  \<open>/products/Trans2Actions\<close>, but from the early return that skips two hooks of the previous
  render: the re-render throws and no redirect is shown.  An admin loading the same URL
  sees the \<open>AdminPerspective\<close> product in both renders, as the claim says.
\<close>

theorem employee_page_load_renders_admin_product:
  "personaOf (auth_user (mountAuth (sampleStorage ''employee'') initialAuth)) = Some ''employee''
   \<and> pageLoad (sampleStorage ''employee'') ''AdminPerspective''
       = [Rendered (ProductPage
            \<lparr> page_product = AdminPerspective,
              page_sidebar = allSidebarLinks,
              page_upload = False,
              page_submits_to_admin = True \<rparr>),
          HooksOrderError]
   \<and> renderProductsPage ''AdminPerspective''
         (auth_user (mountAuth (sampleStorage ''employee'') initialAuth))
       = Redirect ''/products/Trans2Actions''
   \<and> pageLoad (sampleStorage ''admin'') ''AdminPerspective''
       = [Rendered (ProductPage
            \<lparr> page_product = AdminPerspective,
              page_sidebar = allSidebarLinks,
              page_upload = False,
              page_submits_to_admin = True \<rparr>),
          Rendered (ProductPage
            \<lparr> page_product = AdminPerspective,
              page_sidebar = allSidebarLinks,
              page_upload = False,
              page_submits_to_admin = True \<rparr>)]"
proof -
  have first: "auth_user initialAuth = None"
    by (simp add: initialAuth_def)
  have employee: "auth_user (mountAuth (sampleStorage ''employee'') initialAuth)
                    = Some (sampleUser ''employee'')"
    by (rule mountAuth_reads_stored_user [where t = "''token-1''"])
       (simp_all add: sampleStorage_def)
  have admin: "auth_user (mountAuth (sampleStorage ''admin'') initialAuth)
                 = Some (sampleUser ''admin'')"
    by (rule mountAuth_reads_stored_user [where t = "''token-1''"])
       (simp_all add: sampleStorage_def)
  have pe: "personaOf (Some (sampleUser ''employee'')) = Some ''employee''"
   and pa: "personaOf (Some (sampleUser ''admin'')) = Some ''admin''"
    by (simp_all add: personaOf_def sampleUser_def)
  have a: "pageLoad (sampleStorage ''employee'') ''AdminPerspective''
       = [Rendered (ProductPage
            \<lparr> page_product = AdminPerspective,
              page_sidebar = allSidebarLinks,
              page_upload = False,
              page_submits_to_admin = True \<rparr>),
          HooksOrderError]"
    using hooks_counts(1) hooks_counts(2) [OF pe]
    by (simp add: pageLoad_def rerender_def first employee visitor_sees_admin_product)
  have b: "pageLoad (sampleStorage ''admin'') ''AdminPerspective''
       = [Rendered (ProductPage
            \<lparr> page_product = AdminPerspective,
              page_sidebar = allSidebarLinks,
              page_upload = False,
              page_submits_to_admin = True \<rparr>),
          Rendered (ProductPage
            \<lparr> page_product = AdminPerspective,
              page_sidebar = allSidebarLinks,
              page_upload = False,
              page_submits_to_admin = True \<rparr>)]"
    using hooks_counts(1) hooks_counts(3) [OF pa]
    by (simp add: pageLoad_def rerender_def first admin visitor_sees_admin_product
                  known_admin_sees_admin_product [OF pa])
  from a b pe show ?thesis
    by (simp add: employee known_employee_gets_redirect [OF pe])
qed

subsection \<open>The extension check of the document upload\<close>

lemma split_not_Nil: "split sep s \<noteq> []"
  by (induction s) (auto split: list.splits)

lemma pop_last: "xs \<noteq> [] \<Longrightarrow> pop xs = Some (last xs)"
  by (induction xs rule: pop.induct) simp_all

lemma fileExt_last: "fileExt name = Some (''.'' @ toLowerCase (last (split CHR ''.'' name)))"
  by (simp add: fileExt_def pop_last split_not_Nil)

lemma split_no_sep: "sep \<notin> set s \<Longrightarrow> split sep s = [s]"
  by (induction s) auto

lemma split_single: "split sep s = [q] \<Longrightarrow> sep \<notin> set s"
  by (induction s arbitrary: q) (auto simp: split_not_Nil split: list.splits if_splits)

lemma last_split_after_sep:
  "sep \<notin> set e \<Longrightarrow> last (split sep (stem @ sep # e)) = e"
proof (induction stem)
  case Nil
  then show ?case by (simp add: split_no_sep)
next
  case (Cons c stem)
  obtain p ps where ps: "split sep (stem @ sep # e) = p # ps"
    using split_not_Nil by (cases "split sep (stem @ sep # e)") auto
  have two: "ps \<noteq> []"
  proof
    assume "ps = []"
    with ps have "split sep (stem @ sep # e) = [p]" by simp
    then have "sep \<notin> set (stem @ sep # e)" by (rule split_single)
    then show False by simp
  qed
  from Cons ps two show ?case by simp
qed

text \<open>
  The extension the check looks at is the last piece of the name between dots: what
  follows the last dot, and the whole name when there is no dot.
\<close>

lemma fileExt_after_last_dot:
  "CHR ''.'' \<notin> set e \<Longrightarrow> fileExt (stem @ ''.'' @ e) = Some (''.'' @ toLowerCase e)"
  using last_split_after_sep [of "CHR ''.''" e stem] by (simp add: fileExt_last)

lemma fileExt_without_dot:
  "CHR ''.'' \<notin> set name \<Longrightarrow> fileExt name = Some (''.'' @ toLowerCase name)"
  by (simp add: fileExt_last split_no_sep)

lemma fileExt_examples:
  "fileExt ''notes.exe'' = Some ''.exe''"
  "fileExt ''pdf'' = Some ''.pdf''"
  "fileExt ''REPORT.PDF'' = Some ''.pdf''"
  "fileExt ''minutes.doc'' = Some ''.doc''"
  by code_simp+


lemma accepted_extension:
  assumes "fileExt name = Some ext" and "ext \<in> set allowedExtensions"
  shows "\<exists>rest. snd (handleFileUpload be now productName (Some name) st)
                  = UploadRequest name # rest"
  using assms by (cases "uploadResponse be") (simp_all add: handleFileUpload_def)



text \<open>
  C10, at a name without a dot.  The check takes the whole name \<open>pdf\<close> as the extension,
  accepts the file and sends the upload.  (\<open>REPORT.PDF\<close> and \<open>minutes.doc\<close> are accepted
  as well, as the claim says.)
\<close>

theorem dotless_name_passes_extension_check:
  "CHR ''.'' \<notin> set ''pdf''
   \<and> fileExt ''pdf'' = Some ''.pdf''
   \<and> hd (snd (handleFileUpload be now productName (Some ''pdf'') st)) = UploadRequest ''pdf''
   \<and> snd (handleFileUpload be now productName (Some ''pdf'') st) \<noteq> []
   \<and> snd (handleFileUpload be now productName (Some ''REPORT.PDF'') st) \<noteq> []
   \<and> snd (handleFileUpload be now productName (Some ''minutes.doc'') st) \<noteq> []"
proof -
  have allowed: "''.pdf'' \<in> set allowedExtensions" "''.doc'' \<in> set allowedExtensions"
    by (simp_all add: allowedExtensions_def)
  from accepted_extension [OF fileExt_examples(2) allowed(1), of be now productName st]
  have a: "hd (snd (handleFileUpload be now productName (Some ''pdf'') st)) = UploadRequest ''pdf''
           \<and> snd (handleFileUpload be now productName (Some ''pdf'') st) \<noteq> []"
    by auto
  from accepted_extension [OF fileExt_examples(3) allowed(1), of be now productName st]
  have b: "snd (handleFileUpload be now productName (Some ''REPORT.PDF'') st) \<noteq> []"
    by auto
  from accepted_extension [OF fileExt_examples(4) allowed(2), of be now productName st]
  have c: "snd (handleFileUpload be now productName (Some ''minutes.doc'') st) \<noteq> []"
    by auto
  from a b c show ?thesis by (simp add: fileExt_examples)
qed

end
